theory Spec2Isabelle
  imports Main "HOL-Library.Word"
begin

unbundle bit_operations_syntax

section \<open>Data model of \<^verbatim>\<open>tls_client.c\<close>\<close>

text \<open>
  The client half of libtls on BearSSL: \<^verbatim>\<open>tls_client\<close>, \<^verbatim>\<open>tls_connect\<close>,
  \<^verbatim>\<open>tls_connect_servername\<close>, \<^verbatim>\<open>tls_connect_common\<close>, \<^verbatim>\<open>tls_connect_socket\<close>,
  \<^verbatim>\<open>tls_connect_fds\<close> and \<^verbatim>\<open>tls_connect_cbs\<close>. A C string is the list of its characters
  before the terminating NUL, a pointer that may be \<^verbatim>\<open>NULL\<close> is an \<open>option\<close>, and every
  function that mutates \<^verbatim>\<open>struct tls\<close> returns the new session beside its \<^verbatim>\<open>int\<close> result.
\<close>

subsection \<open>Constants of the headers\<close>

text \<open>
  \<^verbatim>\<open>tls_internal.h\<close> and \<^verbatim>\<open>bearssl_x509.h\<close> are not part of the translated file; the
  constants below carry the values those headers give them:
  \<^verbatim>\<open>#define TLS_CLIENT (1 << 0)\<close>, \<^verbatim>\<open>#define TLS_CONNECTED (1 << 1)\<close>,
  \<^verbatim>\<open>#define BR_KEYTYPE_RSA 1\<close>, \<^verbatim>\<open>#define BR_KEYTYPE_EC 2\<close>,
  \<^verbatim>\<open>#define BR_KEYTYPE_SIGN 0x20\<close>.
\<close>

definition TLS_CLIENT :: "32 word" where
  "TLS_CLIENT = push_bit 0 1"

definition TLS_CONNECTED :: "32 word" where
  "TLS_CONNECTED = push_bit 1 1"

definition BR_KEYTYPE_RSA :: int where
  "BR_KEYTYPE_RSA = 1"

definition BR_KEYTYPE_EC :: int where
  "BR_KEYTYPE_EC = 2"

definition BR_KEYTYPE_SIGN :: int where
  "BR_KEYTYPE_SIGN = 32"

subsection \<open>Addresses\<close>

text \<open>
  \<^verbatim>\<open>struct addrinfo\<close> serves both as the hints handed to \<^verbatim>\<open>getaddrinfo\<close> and as one
  element of the list it returns (the \<^verbatim>\<open>ai_next\<close> chain is a HOL list). The values of
  the system's constants differ between platforms, so they are symbolic; the first
  constructor of each type is the value \<^verbatim>\<open>memset(&hints, 0, sizeof(hints))\<close> leaves.
\<close>

datatype ai_family_t = AF_UNSPEC | AF_INET | AF_INET6

datatype ai_flags_t = AI_NOFLAGS | AI_NUMERICHOST | AI_ADDRCONFIG

datatype ai_socktype_t = SOCK_UNSPEC | SOCK_STREAM

record addrinfo =
  ai_flags :: ai_flags_t
  ai_family :: ai_family_t
  ai_socktype :: ai_socktype_t
  ai_protocol :: int
  ai_addr :: "nat list"

subsection \<open>The BearSSL client context\<close>

text \<open>
  The connection object \<^verbatim>\<open>struct tls_conn\<close> is opaque to this file: the code only passes
  \<^verbatim>\<open>&ctx->conn->u.client\<close> to BearSSL. The model keeps the identity of the allocated
  object and the BearSSL calls made on it, in the order of the calls, each with the
  arguments the code passes.
\<close>

datatype br_rsa_sign = Br_rsa_pkcs1_sign_get_default

datatype br_ecdsa_sign = Br_ecdsa_sign_asn1_get_default

datatype br_ec_impl = Br_ec_get_default

datatype br_call =
    Br_ssl_client_set_default_rsapub
  | Br_ssl_client_set_single_rsa "nat list" nat nat br_rsa_sign
  | Br_ssl_client_set_single_ec "nat list" nat nat int int br_ec_impl br_ecdsa_sign
  | Br_ssl_client_reset "string option" int

record tls_conn =
  conn_id :: nat
  br_calls :: "br_call list"

subsection \<open>Configuration and session\<close>

text \<open>
  \<^verbatim>\<open>struct tls_keypair\<close>: the certificate chain and the key material are opaque
  (numbers stand for them); \<open>kp_key\<close> is the storage of the union \<^verbatim>\<open>kp->key\<close>, which
  \<^verbatim>\<open>&kp->key.rsa\<close> and \<^verbatim>\<open>&kp->key.ec\<close> both address.
\<close>

record tls_keypair =
  key_type :: int
  kp_chain :: "nat list"
  chain_len :: nat
  kp_key :: nat
  signer_key_type :: int

record tls_config =
  ocsp_require_stapling :: int
  verify_name :: int
  keypair :: "tls_keypair option"

text \<open>
  A read or write callback is a function pointer: one of the two descriptor callbacks
  of the library, or a function of the caller (identified by a number).
\<close>

datatype tls_cb = Tls_fd_read_cb | Tls_fd_write_cb | User_cb nat

record tls =
  flags :: "32 word"
  state :: "32 word"
  config :: tls_config
  servername :: "string option"
  conn :: "tls_conn option"
  socket :: int
  fd_read :: int
  fd_write :: int
  read_cb :: "tls_cb option"
  write_cb :: "tls_cb option"
  cb_arg :: "nat option"
  error_msg :: "string option"

subsection \<open>The collaborators\<close>

text \<open>
  Everything the file calls and does not define is a field of the environment, so that
  each result below holds for every behaviour of libc, of the operating system and of
  the rest of the library:
  \<^item> \<open>strdup_ok\<close>: whether \<^verbatim>\<open>strdup\<close> returns a copy (it returns \<^verbatim>\<open>NULL\<close> otherwise);
  \<^item> \<open>inet_pton\<close>: the result of libc's \<^verbatim>\<open>inet_pton(af, src, &addrbuf)\<close>;
  \<^item> \<open>tls_conn_new\<close>: the address of the object \<^verbatim>\<open>tls_conn_new(ctx)\<close> returns, or
    \<open>None\<close> for \<^verbatim>\<open>NULL\<close>, and the error message it left in the session, if any;
  \<^item> \<open>tls_configure_x509\<close>: the result of \<^verbatim>\<open>tls_configure_x509(ctx)\<close> and the error
    message it left in the session, if any;
  \<^item> \<open>tls_host_port\<close>: the result of \<^verbatim>\<open>tls_host_port(host, &hs, &ps)\<close> with the two
    strings it stores;
  \<^item> \<open>getaddrinfo\<close>: the result of \<^verbatim>\<open>getaddrinfo(h, p, &hints, &res0)\<close> with the list
    it stores, and \<open>gai_strerror\<close> the text of its error codes;
  \<^item> \<open>sys_socket\<close> and \<open>sys_connect\<close>: the result of \<^verbatim>\<open>socket\<close> and of \<^verbatim>\<open>connect\<close> for a
    candidate address, each with the \<^verbatim>\<open>errno\<close> it sets, and \<open>strerror\<close> the text of
    an \<^verbatim>\<open>errno\<close>.
\<close>

record env =
  strdup_ok :: bool
  inet_pton :: "ai_family_t \<Rightarrow> string \<Rightarrow> int"
  tls_conn_new :: "nat option \<times> string option"
  tls_configure_x509 :: "int \<times> string option"
  tls_host_port :: "string \<Rightarrow> int \<times> string option \<times> string option"
  getaddrinfo :: "string \<Rightarrow> string option \<Rightarrow> addrinfo \<Rightarrow> int \<times> addrinfo list"
  gai_strerror :: "int \<Rightarrow> string"
  sys_socket :: "addrinfo \<Rightarrow> int \<times> int"
  sys_connect :: "int \<Rightarrow> addrinfo \<Rightarrow> int \<times> int"
  strerror :: "int \<Rightarrow> string"

text \<open>
  \<^verbatim>\<open>tls_set_errorx\<close> and \<^verbatim>\<open>tls_set_error\<close> (of \<^verbatim>\<open>tls.c\<close>) replace the session's error
  message; \<^verbatim>\<open>tls_set_error\<close> appends the text of \<^verbatim>\<open>errno\<close>. \<open>callee_error\<close> is the
  message a library function called with the session left there.
\<close>

definition tls_set_errorx :: "tls \<Rightarrow> string \<Rightarrow> tls" where
  "tls_set_errorx ctx m = ctx\<lparr>error_msg := Some m\<rparr>"

definition tls_set_error :: "env \<Rightarrow> int \<Rightarrow> tls \<Rightarrow> string \<Rightarrow> tls" where
  "tls_set_error env errno ctx m = ctx\<lparr>error_msg := Some (m @ '': '' @ strerror env errno)\<rparr>"

definition callee_error :: "tls \<Rightarrow> string option \<Rightarrow> tls" where
  "callee_error ctx e = (case e of None \<Rightarrow> ctx | Some m \<Rightarrow> tls_set_errorx ctx m)"

section \<open>Handshake bootstrap: \<^verbatim>\<open>tls_connect_common\<close>\<close>

text \<open>
  Lines 194 to 197: \<^verbatim>\<open>servername_len = strlen(ctx->servername)\<close>; when the length is
  positive and the last character is a dot, the dot is overwritten with NUL.
\<close>

definition strip_trailing_dot :: "string \<Rightarrow> string" where
  "strip_trailing_dot s =
     (let servername_len = length s in
      if servername_len > 0 \<and> s ! (servername_len - 1) = CHR ''.''
      then take (servername_len - 1) s else s)"

text \<open>
  Lines 182 to 209. \<open>Inl\<close> is the jump to \<^verbatim>\<open>err\<close>; \<open>Inr\<close> carries the session and the
  new value of the local variable \<^verbatim>\<open>servername\<close> (\<open>sname\<close> in the model, as
  \<open>servername\<close> names the field).
\<close>

definition connect_common_servername ::
  "env \<Rightarrow> tls \<Rightarrow> string option \<Rightarrow> tls + tls \<times> string option" where
  "connect_common_servername env ctx sname =
     (case sname of
        None \<Rightarrow> Inr (ctx, None)
      | Some s \<Rightarrow>
          if \<not> strdup_ok env
          then Inl (tls_set_errorx (ctx\<lparr>servername := None\<rparr>) ''out of memory'')
          else
            let ctx = ctx\<lparr>servername := Some (strip_trailing_dot s)\<rparr> in
            if inet_pton env AF_INET (the (servername ctx)) \<noteq> 1 \<and>
               inet_pton env AF_INET6 (the (servername ctx)) \<noteq> 1
            then Inr (ctx, servername ctx)
            else Inr (ctx, None))"

text \<open>A BearSSL call on \<^verbatim>\<open>&ctx->conn->u.client\<close>.\<close>

definition br :: "tls \<Rightarrow> br_call \<Rightarrow> tls" where
  "br ctx c = ctx\<lparr>conn := map_option (\<lambda>k. k\<lparr>br_calls := br_calls k @ [c]\<rparr>) (conn ctx)\<rparr>"

text \<open>Lines 224 to 241: the \<^verbatim>\<open>switch\<close> has two cases and no default.\<close>

definition connect_common_keypair :: "tls \<Rightarrow> tls" where
  "connect_common_keypair ctx =
     (case keypair (config ctx) of
        None \<Rightarrow> ctx
      | Some kp \<Rightarrow>
          if key_type kp = BR_KEYTYPE_RSA
          then br ctx (Br_ssl_client_set_single_rsa (kp_chain kp) (chain_len kp) (kp_key kp)
                        Br_rsa_pkcs1_sign_get_default)
          else if key_type kp = BR_KEYTYPE_EC
          then br ctx (Br_ssl_client_set_single_ec (kp_chain kp) (chain_len kp) (kp_key kp)
                        BR_KEYTYPE_SIGN (signer_key_type kp) Br_ec_get_default
                        Br_ecdsa_sign_asn1_get_default)
          else ctx)"

definition tls_connect_common :: "env \<Rightarrow> tls \<Rightarrow> string option \<Rightarrow> int \<times> tls" where
  "tls_connect_common env ctx sname =
     (if (flags ctx AND TLS_CLIENT) = 0
      then (- 1, tls_set_errorx ctx ''not a client context'')
      else
        case connect_common_servername env ctx sname of
          Inl ctx \<Rightarrow> (- 1, ctx)
        | Inr (ctx, sname) \<Rightarrow>
            if ocsp_require_stapling (config ctx) \<noteq> 0
            then (- 1, tls_set_errorx ctx ''OCSP stapling is not supported'')
            else
              (case tls_conn_new env of
                 (None, e) \<Rightarrow> (- 1, callee_error (ctx\<lparr>conn := None\<rparr>) e)
               | (Some a, e) \<Rightarrow>
                   let ctx = callee_error (ctx\<lparr>conn := Some \<lparr>conn_id = a, br_calls = []\<rparr>\<rparr>) e in
                   (case tls_configure_x509 env of
                      (r, e) \<Rightarrow>
                        let ctx = callee_error ctx e in
                        if r \<noteq> 0 then (- 1, ctx)
                        else
                          let ctx = br ctx Br_ssl_client_set_default_rsapub;
                              ctx = connect_common_keypair ctx
                          in
                            if verify_name (config ctx) \<noteq> 0 \<and> sname = None
                            then (- 1, tls_set_errorx ctx ''server name not specified'')
                            else
                              let ctx = br ctx (Br_ssl_client_reset sname 0) in
                              (0, ctx\<lparr>state := state ctx OR TLS_CONNECTED\<rparr>))))"

section \<open>Transport binding: \<^verbatim>\<open>tls_connect_fds\<close>, \<^verbatim>\<open>tls_connect_socket\<close>, \<^verbatim>\<open>tls_connect_cbs\<close>\<close>

definition tls_connect_fds :: "env \<Rightarrow> tls \<Rightarrow> int \<Rightarrow> int \<Rightarrow> string option \<Rightarrow> int \<times> tls" where
  "tls_connect_fds env ctx fd_r fd_w sname =
     (if fd_r < 0 \<or> fd_w < 0
      then (- 1, tls_set_errorx ctx ''invalid file descriptors'')
      else
        case tls_connect_common env ctx sname of
          (r, ctx) \<Rightarrow>
            if r \<noteq> 0 then (- 1, ctx)
            else (0, ctx\<lparr>fd_read := fd_r, read_cb := Some Tls_fd_read_cb,
                           fd_write := fd_w, write_cb := Some Tls_fd_write_cb,
                           cb_arg := None\<rparr>))"

definition tls_connect_socket :: "env \<Rightarrow> tls \<Rightarrow> int \<Rightarrow> string option \<Rightarrow> int \<times> tls" where
  "tls_connect_socket env ctx s sname = tls_connect_fds env ctx s s sname"

definition tls_connect_cbs ::
  "env \<Rightarrow> tls \<Rightarrow> tls_cb option \<Rightarrow> tls_cb option \<Rightarrow> nat option \<Rightarrow> string option \<Rightarrow> int \<times> tls" where
  "tls_connect_cbs env ctx rcb wcb arg sname =
     (case tls_connect_common env ctx sname of
        (r, ctx) \<Rightarrow>
          if r \<noteq> 0 then (- 1, ctx)
          else if rcb = None \<or> wcb = None
          then (- 1, tls_set_errorx ctx ''no callbacks provided'')
          else (0, ctx\<lparr>read_cb := rcb, write_cb := wcb, cb_arg := arg\<rparr>))"

section \<open>Resolution and connection: \<^verbatim>\<open>tls_connect_servername\<close>\<close>

text \<open>
  What the function does to the operating system, beside the session: the descriptors
  it holds open (\<^verbatim>\<open>socket\<close> adds one, \<^verbatim>\<open>close\<close> removes it), the hints of every
  \<^verbatim>\<open>getaddrinfo\<close> call and the candidate of every \<^verbatim>\<open>socket\<close> call, each in the order of
  the calls.
\<close>

record sys =
  open_fds :: "int list"
  lookups :: "addrinfo list"
  attempts :: "addrinfo list"

definition sys_close :: "sys \<Rightarrow> int \<Rightarrow> sys" where
  "sys_close w s = w\<lparr>open_fds := remove1 s (open_fds w)\<rparr>"

definition lookup :: "env \<Rightarrow> string \<Rightarrow> string option \<Rightarrow> addrinfo \<Rightarrow> sys \<Rightarrow> (int \<times> addrinfo list) \<times> sys" where
  "lookup env h p hints w = (getaddrinfo env h p hints, w\<lparr>lookups := lookups w @ [hints]\<rparr>)"

text \<open>
  Lines 108 to 126. \<open>Inl s\<close> is the error code of the last \<^verbatim>\<open>getaddrinfo\<close>, on the way
  to \<^verbatim>\<open>err\<close>; \<open>Inr res0\<close> is the list of the first call that returned 0.
\<close>

definition resolve :: "env \<Rightarrow> string \<Rightarrow> string option \<Rightarrow> sys \<Rightarrow> (int + addrinfo list) \<times> sys" where
  "resolve env h p w =
     (let hints = \<lparr>ai_flags = AI_NOFLAGS, ai_family = AF_UNSPEC, ai_socktype = SOCK_UNSPEC,
                    ai_protocol = 0, ai_addr = []\<rparr>;
          hints = hints\<lparr>ai_socktype := SOCK_STREAM\<rparr>;
          hints = hints\<lparr>ai_family := AF_INET\<rparr>;
          hints = hints\<lparr>ai_flags := AI_NUMERICHOST\<rparr>
      in
        case lookup env h p hints w of
          ((r4, res0), w) \<Rightarrow>
            if r4 \<noteq> 0 then
              let hints = hints\<lparr>ai_family := AF_INET6\<rparr> in
              case lookup env h p hints w of
                ((r6, res0), w) \<Rightarrow>
                  if r6 \<noteq> 0 then
                    let hints = hints\<lparr>ai_family := AF_UNSPEC\<rparr>;
                        hints = hints\<lparr>ai_flags := AI_ADDRCONFIG\<rparr>
                    in
                      case lookup env h p hints w of
                        ((s, res0), w) \<Rightarrow> if s \<noteq> 0 then (Inl s, w) else (Inr res0, w)
                  else (Inr res0, w)
            else (Inr res0, w))"

text \<open>
  Lines 129 to 144, the loop over \<^verbatim>\<open>res0\<close>. The first component of the state is the
  variable \<^verbatim>\<open>s\<close>; \<^verbatim>\<open>continue\<close> is the recursive call and \<^verbatim>\<open>break\<close> the return.
\<close>

fun connect_loop :: "env \<Rightarrow> addrinfo list \<Rightarrow> int \<times> tls \<times> sys \<Rightarrow> int \<times> tls \<times> sys" where
  "connect_loop env [] (s, ctx, w) = (s, ctx, w)"
| "connect_loop env (res # rest) (s, ctx, w) =
     (case sys_socket env res of
        (s, errno) \<Rightarrow>
          let w = w\<lparr>attempts := attempts w @ [res]\<rparr> in
          if s = - 1
          then connect_loop env rest (s, tls_set_error env errno ctx ''socket'', w)
          else
            let w = w\<lparr>open_fds := s # open_fds w\<rparr> in
            case sys_connect env s res of
              (r, errno) \<Rightarrow>
                if r = - 1
                then connect_loop env rest
                       (- 1, tls_set_error env errno ctx ''connect'', sys_close w s)
                else (s, ctx, w))"

text \<open>
  Lines 84 to 97: the port is the argument, or the one \<^verbatim>\<open>tls_host_port\<close> extracts from
  the host. \<open>Inl\<close> is the message on the way to \<^verbatim>\<open>err\<close>; \<open>Inr\<close> carries \<^verbatim>\<open>h\<close> and \<^verbatim>\<open>p\<close>.
\<close>

definition connect_servername_port ::
  "env \<Rightarrow> string \<Rightarrow> string option \<Rightarrow> string + string \<times> string option" where
  "connect_servername_port env host port =
     (case (if port = None
            then (case tls_host_port env host of
                    (ret, hs, ps) \<Rightarrow>
                      if ret = - 1 then Inl ''memory allocation failure''
                      else if ret \<noteq> 0 then Inl ''no port provided''
                      else Inr (hs, ps))
            else Inr (None, None)) of
        Inl m \<Rightarrow> Inl m
      | Inr (hs, ps) \<Rightarrow>
          Inr (case hs of Some x \<Rightarrow> x | None \<Rightarrow> host,
               case ps of Some x \<Rightarrow> Some x | None \<Rightarrow> port))"

definition tls_connect_servername ::
  "env \<Rightarrow> tls \<Rightarrow> sys \<Rightarrow> string option \<Rightarrow> string option \<Rightarrow> string option \<Rightarrow> int \<times> tls \<times> sys" where
  "tls_connect_servername env ctx w host port sname =
     (if (flags ctx AND TLS_CLIENT) = 0
      then (- 1, tls_set_errorx ctx ''not a client context'', w)
      else
        case host of
          None \<Rightarrow> (- 1, tls_set_errorx ctx ''host not specified'', w)
        | Some host \<Rightarrow>
            (case connect_servername_port env host port of
               Inl m \<Rightarrow> (- 1, tls_set_errorx ctx m, w)
             | Inr (h, p) \<Rightarrow>
                 (case resolve env h p w of
                    (Inl s, w) \<Rightarrow> (- 1, tls_set_errorx ctx (gai_strerror env s), w)
                  | (Inr res0, w) \<Rightarrow>
                      (case connect_loop env res0 (- 1, ctx, w) of
                         (s, ctx, w) \<Rightarrow>
                           if s = - 1 then (- 1, ctx, w)
                           else
                             let sname = (case sname of None \<Rightarrow> Some h | Some x \<Rightarrow> Some x) in
                             (case tls_connect_socket env ctx s sname of
                                (r, ctx) \<Rightarrow>
                                  if r \<noteq> 0 then (- 1, ctx, sys_close w s)
                                  else (0, ctx\<lparr>socket := s\<rparr>, w))))))"

definition tls_connect ::
  "env \<Rightarrow> tls \<Rightarrow> sys \<Rightarrow> string option \<Rightarrow> string option \<Rightarrow> int \<times> tls \<times> sys" where
  "tls_connect env ctx w host port = tls_connect_servername env ctx w host port None"

text \<open>
  \<^verbatim>\<open>tls_client\<close>, with the result of \<^verbatim>\<open>tls_init()\<close> and the session \<^verbatim>\<open>tls_new()\<close>
  returns (or \<open>None\<close> for \<^verbatim>\<open>NULL\<close>).
\<close>

definition tls_client :: "int \<Rightarrow> tls option \<Rightarrow> tls option" where
  "tls_client init new =
     (if init = - 1 then None
      else case new of
        None \<Rightarrow> None
      | Some ctx \<Rightarrow> Some (ctx\<lparr>flags := flags ctx OR TLS_CLIENT\<rparr>))"

section \<open>Observations\<close>

text \<open>
  The BearSSL calls made on the session's connection object, and among them the
  handshake initiations (\<^verbatim>\<open>br_ssl_client_reset\<close>), whose first argument is the server
  name sent as SNI.
\<close>

definition engine_calls :: "tls \<Rightarrow> br_call list" where
  "engine_calls ctx = (case conn ctx of None \<Rightarrow> [] | Some k \<Rightarrow> br_calls k)"

fun is_reset :: "br_call \<Rightarrow> bool" where
  "is_reset (Br_ssl_client_reset n r) = True"
| "is_reset _ = False"

definition handshake_resets :: "tls \<Rightarrow> br_call list" where
  "handshake_resets ctx = filter is_reset (engine_calls ctx)"

text \<open>
  The hints of the three \<^verbatim>\<open>getaddrinfo\<close> calls, as lines 108 to 120 leave them.
\<close>

definition hints_inet :: addrinfo where
  "hints_inet = \<lparr>ai_flags = AI_NUMERICHOST, ai_family = AF_INET, ai_socktype = SOCK_STREAM,
                  ai_protocol = 0, ai_addr = []\<rparr>"

definition hints_inet6 :: addrinfo where
  "hints_inet6 = \<lparr>ai_flags = AI_NUMERICHOST, ai_family = AF_INET6, ai_socktype = SOCK_STREAM,
                   ai_protocol = 0, ai_addr = []\<rparr>"

definition hints_any :: addrinfo where
  "hints_any = \<lparr>ai_flags = AI_ADDRCONFIG, ai_family = AF_UNSPEC, ai_socktype = SOCK_STREAM,
                 ai_protocol = 0, ai_addr = []\<rparr>"

text \<open>
  A candidate connects when \<^verbatim>\<open>socket\<close> does not return -1 for it and \<^verbatim>\<open>connect\<close> on
  that descriptor does not return -1; \<open>cand_error\<close> is the message its failure leaves
  in the session.
\<close>

definition cand_ok :: "env \<Rightarrow> addrinfo \<Rightarrow> bool" where
  "cand_ok env res =
     (fst (sys_socket env res) \<noteq> - 1 \<and>
      fst (sys_connect env (fst (sys_socket env res)) res) \<noteq> - 1)"

definition cand_error :: "env \<Rightarrow> addrinfo \<Rightarrow> string" where
  "cand_error env res =
     (if fst (sys_socket env res) = - 1
      then ''socket: '' @ strerror env (snd (sys_socket env res))
      else ''connect: '' @ strerror env (snd (sys_connect env (fst (sys_socket env res)) res)))"

section \<open>A concrete environment\<close>

text \<open>
  The results hold for every environment. To run the model on concrete inputs, the
  environment below has an \<^verbatim>\<open>inet_pton\<close> that accepts the text forms POSIX gives for
  it (a dotted quad of decimal octets without leading zeros for \<^verbatim>\<open>AF_INET\<close>; eight
  colon-separated groups of one to four hexadecimal digits for \<^verbatim>\<open>AF_INET6\<close>, one
  \<^verbatim>\<open>::\<close> standing for one or more groups of zeros, the last two groups possibly a
  dotted quad), allocations that succeed, a resolver that converts numeric hosts and
  fails on every name, and a network on which every connection succeeds.
\<close>

definition is_digit :: "char \<Rightarrow> bool" where
  "is_digit c = (48 \<le> (of_char c :: nat) \<and> (of_char c :: nat) \<le> 57)"

definition is_xdigit :: "char \<Rightarrow> bool" where
  "is_xdigit c = (is_digit c \<or> (97 \<le> (of_char c :: nat) \<and> (of_char c :: nat) \<le> 102)
      \<or> (65 \<le> (of_char c :: nat) \<and> (of_char c :: nat) \<le> 70))"

fun split_on :: "char \<Rightarrow> string \<Rightarrow> string list" where
  "split_on c [] = [[]]"
| "split_on c (x # xs) =
     (if x = c then [] # split_on c xs
      else case split_on c xs of g # gs \<Rightarrow> (x # g) # gs | [] \<Rightarrow> [[x]])"

definition dec_value :: "string \<Rightarrow> nat" where
  "dec_value g = foldl (\<lambda>v c. 10 * v + (of_char c - 48)) 0 g"

definition octet :: "string \<Rightarrow> bool" where
  "octet g = (1 \<le> length g \<and> length g \<le> 3 \<and> list_all is_digit g \<and>
              (length g = 1 \<or> hd g \<noteq> CHR ''0'') \<and> dec_value g \<le> 255)"

definition dotted_quad :: "string \<Rightarrow> bool" where
  "dotted_quad s = (let gs = split_on CHR ''.'' s in length gs = 4 \<and> list_all octet gs)"

definition hextet :: "string \<Rightarrow> bool" where
  "hextet g = (1 \<le> length g \<and> length g \<le> 4 \<and> list_all is_xdigit g)"

definition hextets :: "bool \<Rightarrow> string \<Rightarrow> nat option" where
  "hextets v4 s =
     (if s = [] then Some 0
      else let gs = split_on CHR '':'' s in
        if list_all hextet gs then Some (length gs)
        else if v4 \<and> list_all hextet (butlast gs) \<and> dotted_quad (last gs)
        then Some (length gs + 1) else None)"

fun split_gap :: "string \<Rightarrow> (string \<times> string) option" where
  "split_gap (a # b # rest) =
     (if a = CHR '':'' \<and> b = CHR '':'' then Some ([], rest)
      else map_option (\<lambda>(l, r). (a # l, r)) (split_gap (b # rest)))"
| "split_gap _ = None"

definition colon_hex :: "string \<Rightarrow> bool" where
  "colon_hex s =
     (case split_gap s of
        None \<Rightarrow> hextets True s = Some 8
      | Some (l, r) \<Rightarrow>
          (case (hextets False l, hextets True r) of
             (Some m, Some n) \<Rightarrow> m + n \<le> 7
           | _ \<Rightarrow> False))"

definition text_inet_pton :: "ai_family_t \<Rightarrow> string \<Rightarrow> int" where
  "text_inet_pton af src =
     (case af of
        AF_INET \<Rightarrow> if dotted_quad src then 1 else 0
      | AF_INET6 \<Rightarrow> if colon_hex src then 1 else 0
      | AF_UNSPEC \<Rightarrow> - 1)"

definition text_getaddrinfo :: "string \<Rightarrow> string option \<Rightarrow> addrinfo \<Rightarrow> int \<times> addrinfo list" where
  "text_getaddrinfo h p hints =
     (if ai_flags hints = AI_NUMERICHOST \<and> ai_family hints = AF_INET \<and> dotted_quad h
      then (0, [hints\<lparr>ai_protocol := 6, ai_addr := map dec_value (split_on CHR ''.'' h)\<rparr>])
      else if ai_flags hints = AI_NUMERICHOST \<and> ai_family hints = AF_INET6 \<and> colon_hex h
      then (0, [hints\<lparr>ai_protocol := 6, ai_addr := map of_char h\<rparr>])
      else if ai_flags hints = AI_NUMERICHOST then (- 2, [])
      else (- 3, []))"

definition sample_env :: env where
  "sample_env =
     \<lparr>strdup_ok = True,
      inet_pton = text_inet_pton,
      tls_conn_new = (Some 1, None),
      tls_configure_x509 = (0, None),
      tls_host_port = (\<lambda>host. (1, None, None)),
      getaddrinfo = text_getaddrinfo,
      gai_strerror = (\<lambda>e. if e = - 3 then ''Temporary failure in name resolution''
                           else ''Name or service not known''),
      sys_socket = (\<lambda>res. (3, 0)),
      sys_connect = (\<lambda>s res. (0, 0)),
      strerror = (\<lambda>e. if e = 111 then ''Connection refused''
                        else ''Address family not supported by protocol'')\<rparr>"

text \<open>
  A network on which \<^verbatim>\<open>socket\<close> fails for the address 192.0.2.0 and \<^verbatim>\<open>connect\<close>
  succeeds for the address 192.0.2.3 only.
\<close>

definition sample_addr :: "nat \<Rightarrow> addrinfo" where
  "sample_addr n = \<lparr>ai_flags = AI_NOFLAGS, ai_family = AF_INET, ai_socktype = SOCK_STREAM,
                     ai_protocol = 6, ai_addr = [192, 0, 2, n]\<rparr>"

definition sample_net :: env where
  "sample_net =
     sample_env
       \<lparr>sys_socket := (\<lambda>res. if ai_addr res = [192, 0, 2, 0] then (- 1, 97) else (3, 0)),
        sys_connect := (\<lambda>s res. if ai_addr res = [192, 0, 2, 3] then (0, 0) else (- 1, 111))\<rparr>"

definition sample_sys :: sys where
  "sample_sys = \<lparr>open_fds = [], lookups = [], attempts = []\<rparr>"

definition sample_session :: tls where
  "sample_session =
     \<lparr>flags = TLS_CLIENT, state = 0,
      config = \<lparr>ocsp_require_stapling = 0, verify_name = 0, keypair = None\<rparr>,
      servername = None, conn = None, socket = - 1, fd_read = - 1, fd_write = - 1,
      read_cb = None, write_cb = None, cb_arg = None, error_msg = None\<rparr>"

definition sample_keypair :: "int \<Rightarrow> tls_keypair" where
  "sample_keypair kt =
     \<lparr>key_type = kt, kp_chain = [7], chain_len = 1, kp_key = 9, signer_key_type = BR_KEYTYPE_RSA\<rparr>"

section \<open>Basic facts\<close>

lemma strip_trailing_dot_butlast:
  "strip_trailing_dot s = (if s \<noteq> [] \<and> last s = CHR ''.'' then butlast s else s)"
proof (cases "s = []")
  case True
  then show ?thesis by (simp add: strip_trailing_dot_def)
next
  case False
  then have "last s = s ! (length s - 1)" by (rule last_conv_nth)
  with False show ?thesis
    by (simp add: strip_trailing_dot_def Let_def butlast_conv_take)
qed

lemma TLS_CONNECTED_set [simp]: "((st :: 32 word) OR TLS_CONNECTED) AND TLS_CONNECTED = TLS_CONNECTED"
  by (rule bit_word_eqI) (auto simp: bit_and_iff bit_or_iff)

lemma TLS_CONNECTED_nonzero [simp]: "TLS_CONNECTED \<noteq> 0"
  by (simp add: TLS_CONNECTED_def)

lemma tls_set_errorx_fields [simp]:
  "flags (tls_set_errorx ctx m) = flags ctx"
  "state (tls_set_errorx ctx m) = state ctx"
  "config (tls_set_errorx ctx m) = config ctx"
  "servername (tls_set_errorx ctx m) = servername ctx"
  "conn (tls_set_errorx ctx m) = conn ctx"
  "socket (tls_set_errorx ctx m) = socket ctx"
  "fd_read (tls_set_errorx ctx m) = fd_read ctx"
  "fd_write (tls_set_errorx ctx m) = fd_write ctx"
  "read_cb (tls_set_errorx ctx m) = read_cb ctx"
  "write_cb (tls_set_errorx ctx m) = write_cb ctx"
  "cb_arg (tls_set_errorx ctx m) = cb_arg ctx"
  "error_msg (tls_set_errorx ctx m) = Some m"
  by (simp_all add: tls_set_errorx_def)

lemma callee_error_fields [simp]:
  "flags (callee_error ctx e) = flags ctx"
  "state (callee_error ctx e) = state ctx"
  "config (callee_error ctx e) = config ctx"
  "servername (callee_error ctx e) = servername ctx"
  "conn (callee_error ctx e) = conn ctx"
  "socket (callee_error ctx e) = socket ctx"
  "fd_read (callee_error ctx e) = fd_read ctx"
  "fd_write (callee_error ctx e) = fd_write ctx"
  "read_cb (callee_error ctx e) = read_cb ctx"
  "write_cb (callee_error ctx e) = write_cb ctx"
  "cb_arg (callee_error ctx e) = cb_arg ctx"
  "error_msg (callee_error ctx None) = error_msg ctx"
  by (simp_all add: callee_error_def split: option.split)

lemma br_fields [simp]:
  "flags (br ctx c) = flags ctx"
  "state (br ctx c) = state ctx"
  "config (br ctx c) = config ctx"
  "servername (br ctx c) = servername ctx"
  "error_msg (br ctx c) = error_msg ctx"
  "socket (br ctx c) = socket ctx"
  "fd_read (br ctx c) = fd_read ctx"
  "fd_write (br ctx c) = fd_write ctx"
  "read_cb (br ctx c) = read_cb ctx"
  "write_cb (br ctx c) = write_cb ctx"
  "cb_arg (br ctx c) = cb_arg ctx"
  "conn (br ctx c) = map_option (\<lambda>k. k\<lparr>br_calls := br_calls k @ [c]\<rparr>) (conn ctx)"
  by (simp_all add: br_def)

lemma connect_common_keypair_fields [simp]:
  "flags (connect_common_keypair ctx) = flags ctx"
  "state (connect_common_keypair ctx) = state ctx"
  "config (connect_common_keypair ctx) = config ctx"
  "servername (connect_common_keypair ctx) = servername ctx"
  "error_msg (connect_common_keypair ctx) = error_msg ctx"
  "socket (connect_common_keypair ctx) = socket ctx"
  "fd_read (connect_common_keypair ctx) = fd_read ctx"
  "fd_write (connect_common_keypair ctx) = fd_write ctx"
  "read_cb (connect_common_keypair ctx) = read_cb ctx"
  "write_cb (connect_common_keypair ctx) = write_cb ctx"
  "cb_arg (connect_common_keypair ctx) = cb_arg ctx"
  by (simp_all add: connect_common_keypair_def split: option.split)

lemma engine_calls_simps [simp]:
  "engine_calls (ctx\<lparr>state := st\<rparr>) = engine_calls ctx"
  "engine_calls (ctx\<lparr>conn := Some k\<rparr>) = br_calls k"
  "engine_calls (tls_set_errorx ctx m) = engine_calls ctx"
  "engine_calls (callee_error ctx e) = engine_calls ctx"
  "engine_calls (br ctx c) = (if conn ctx = None then [] else engine_calls ctx @ [c])"
  by (auto simp: engine_calls_def split: option.splits)

lemma conn_connect_common_keypair [simp]:
  "(conn (connect_common_keypair ctx) = None) = (conn ctx = None)"
  by (simp add: connect_common_keypair_def split: option.split)

lemma engine_calls_keypair:
  "engine_calls (connect_common_keypair ctx) =
     (if conn ctx = None then []
      else engine_calls ctx @
        (case keypair (config ctx) of
           None \<Rightarrow> []
         | Some kp \<Rightarrow>
             if key_type kp = BR_KEYTYPE_RSA
             then [Br_ssl_client_set_single_rsa (kp_chain kp) (chain_len kp) (kp_key kp)
                     Br_rsa_pkcs1_sign_get_default]
             else if key_type kp = BR_KEYTYPE_EC
             then [Br_ssl_client_set_single_ec (kp_chain kp) (chain_len kp) (kp_key kp)
                     BR_KEYTYPE_SIGN (signer_key_type kp) Br_ec_get_default
                     Br_ecdsa_sign_asn1_get_default]
             else []))"
  by (auto simp: connect_common_keypair_def engine_calls_def split: option.splits)

lemma connect_common_servername_Inr:
  "connect_common_servername env ctx sn = Inr (ctx1, sni) \<Longrightarrow>
     flags ctx1 = flags ctx \<and> state ctx1 = state ctx \<and> config ctx1 = config ctx \<and>
     conn ctx1 = conn ctx \<and> error_msg ctx1 = error_msg ctx \<and>
     servername ctx1 =
       (case sn of None \<Rightarrow> servername ctx | Some s \<Rightarrow> Some (strip_trailing_dot s)) \<and>
     sni = (case sn of None \<Rightarrow> None | Some s \<Rightarrow>
              if inet_pton env AF_INET (strip_trailing_dot s) \<noteq> 1 \<and>
                 inet_pton env AF_INET6 (strip_trailing_dot s) \<noteq> 1
              then Some (strip_trailing_dot s) else None) \<and>
     (sn = None \<or> strdup_ok env)"
  by (cases sn) (auto simp: connect_common_servername_def Let_def split: if_splits)

lemma connect_common_servername_Inl:
  "connect_common_servername env ctx sn = Inl ctx1 \<Longrightarrow>
     sn \<noteq> None \<and> \<not> strdup_ok env \<and>
     ctx1 = tls_set_errorx (ctx\<lparr>servername := None\<rparr>) ''out of memory''"
  by (cases sn) (auto simp: connect_common_servername_def Let_def split: if_splits)

lemma connect_common_servername_Some:
  "strdup_ok env \<Longrightarrow>
   connect_common_servername env ctx (Some s) =
     Inr (ctx\<lparr>servername := Some (strip_trailing_dot s)\<rparr>,
          if inet_pton env AF_INET (strip_trailing_dot s) \<noteq> 1 \<and>
             inet_pton env AF_INET6 (strip_trailing_dot s) \<noteq> 1
          then Some (strip_trailing_dot s) else None)"
  by (simp add: connect_common_servername_def Let_def)

lemma tls_connect_common_success:
  assumes "tls_connect_common env ctx sn = (0, ctx')"
  obtains ctx1 sni a e1 e2 where
    "(flags ctx AND TLS_CLIENT) \<noteq> 0"
    "connect_common_servername env ctx sn = Inr (ctx1, sni)"
    "ocsp_require_stapling (config ctx1) = 0"
    "tls_conn_new env = (Some a, e1)"
    "tls_configure_x509 env = (0, e2)"
    "verify_name (config ctx1) = 0 \<or> sni \<noteq> None"
    "ctx' = (br (connect_common_keypair (br (callee_error (callee_error
               (ctx1\<lparr>conn := Some \<lparr>conn_id = a, br_calls = []\<rparr>\<rparr>) e1) e2)
               Br_ssl_client_set_default_rsapub)) (Br_ssl_client_reset sni 0))
             \<lparr>state := state ctx1 OR TLS_CONNECTED\<rparr>"
  using assms
  by (auto simp: tls_connect_common_def Let_def
      split: if_splits sum.splits prod.splits option.splits)

lemma tls_connect_common_resets:
  assumes "tls_connect_common env ctx sn = (0, ctx')"
  shows "handshake_resets ctx' =
           [Br_ssl_client_reset
              (case sn of
                 None \<Rightarrow> None
               | Some s \<Rightarrow>
                   if inet_pton env AF_INET (strip_trailing_dot s) \<noteq> 1 \<and>
                      inet_pton env AF_INET6 (strip_trailing_dot s) \<noteq> 1
                   then Some (strip_trailing_dot s) else None) 0]"
proof -
  from assms obtain ctx1 sni a e1 e2 where
    sn: "connect_common_servername env ctx sn = Inr (ctx1, sni)" and
    ctx': "ctx' = (br (connect_common_keypair (br (callee_error (callee_error
               (ctx1\<lparr>conn := Some \<lparr>conn_id = a, br_calls = []\<rparr>\<rparr>) e1) e2)
               Br_ssl_client_set_default_rsapub)) (Br_ssl_client_reset sni 0))
             \<lparr>state := state ctx1 OR TLS_CONNECTED\<rparr>"
    by (rule tls_connect_common_success)
  from connect_common_servername_Inr [OF sn]
  have sni: "sni = (case sn of
                 None \<Rightarrow> None
               | Some s \<Rightarrow>
                   if inet_pton env AF_INET (strip_trailing_dot s) \<noteq> 1 \<and>
                      inet_pton env AF_INET6 (strip_trailing_dot s) \<noteq> 1
                   then Some (strip_trailing_dot s) else None)"
    by simp
  have "handshake_resets ctx' = [Br_ssl_client_reset sni 0]"
    unfolding ctx' handshake_resets_def
    by (simp add: engine_calls_keypair split: option.split)
  then show ?thesis
    by (simp add: sni)
qed

lemma tls_connect_common_result: "fst (tls_connect_common env ctx sn) \<in> {0, - 1}"
  by (auto simp: tls_connect_common_def Let_def
      split: if_splits sum.splits prod.splits option.splits)

lemma tls_connect_common_servername:
  assumes "(flags ctx AND TLS_CLIENT) \<noteq> 0" and "strdup_ok env"
  shows "servername (snd (tls_connect_common env ctx (Some s))) = Some (strip_trailing_dot s)"
  using assms
  by (simp add: tls_connect_common_def connect_common_servername_Some Let_def
      split: prod.split option.split)

subsection \<open>The concrete environment at work\<close>

lemmas text_inet_pton_defs =
  text_inet_pton_def dotted_quad_def colon_hex_def hextets_def hextet_def octet_def
  is_digit_def is_xdigit_def dec_value_def

lemma sample_env_fields [simp]:
  "strdup_ok sample_env"
  "inet_pton sample_env = text_inet_pton"
  "tls_conn_new sample_env = (Some 1, None)"
  "tls_configure_x509 sample_env = (0, None)"
  by (simp_all add: sample_env_def)

lemma sample_session_fields [simp]:
  "flags sample_session = TLS_CLIENT"
  "state sample_session = 0"
  "config sample_session = \<lparr>ocsp_require_stapling = 0, verify_name = 0, keypair = None\<rparr>"
  "servername sample_session = None"
  "conn sample_session = None"
  "error_msg sample_session = None"
  by (simp_all add: sample_session_def)

lemma TLS_CLIENT_nonzero [simp]: "TLS_CLIENT \<noteq> 0"
  by (simp add: TLS_CLIENT_def)

lemma text_inet_pton_examples [simp]:
  "text_inet_pton AF_INET ''192.0.2.1'' = 1"
  "text_inet_pton AF_INET ''example.com'' = 0"
  "text_inet_pton AF_INET6 ''example.com'' = 0"
  "text_inet_pton AF_INET ''example.com.'' = 0"
  "text_inet_pton AF_INET6 ''example.com.'' = 0"
  by (simp_all add: text_inet_pton_defs)

lemma strip_trailing_dot_examples [simp]:
  "strip_trailing_dot ''example.com.'' = ''example.com''"
  "strip_trailing_dot ''example.com..'' = ''example.com.''"
  "strip_trailing_dot ''example.com'' = ''example.com''"
  "strip_trailing_dot ''192.0.2.1'' = ''192.0.2.1''"
  by (simp_all add: strip_trailing_dot_def)

lemma sample_bootstrap_succeeds:
  "verify_name (config ctx) = 0 \<Longrightarrow> ocsp_require_stapling (config ctx) = 0 \<Longrightarrow>
   flags ctx = TLS_CLIENT \<Longrightarrow> fst (tls_connect_common sample_env ctx sn) = 0"
  by (cases sn)
     (simp_all add: tls_connect_common_def connect_common_servername_Some Let_def
       connect_common_servername_def)

section \<open>Servername canonicalisation\<close>

text \<open>
  C1. For a server name that is not \<^verbatim>\<open>NULL\<close>, the name is stripped of one trailing dot
  if it has one, and the stripped name is tested with \<^verbatim>\<open>inet_pton\<close> for both address
  families. Whenever the bootstrap reaches the handshake initiation (it returns 0),
  that initiation is the only one on the connection and its server name is absent when
  the stripped name is an IPv4 or IPv6 literal, and the stripped name otherwise.
\<close>

theorem canonical_sni_reaches_handshake:
  assumes "tls_connect_common env ctx (Some s) = (0, ctx')"
  shows "handshake_resets ctx' =
           [Br_ssl_client_reset
              (let t = (if s \<noteq> [] \<and> last s = CHR ''.'' then butlast s else s) in
               if inet_pton env AF_INET t = 1 \<or> inet_pton env AF_INET6 t = 1 then None
               else Some t) 0]"
  using tls_connect_common_resets [OF assms]
  by (simp add: Let_def strip_trailing_dot_butlast)

theorem canonical_sni_reaches_handshake_witness:
  "fst (tls_connect_common sample_env sample_session (Some ''example.com.'')) = 0 \<and>
   handshake_resets (snd (tls_connect_common sample_env sample_session (Some ''example.com.'')))
     = [Br_ssl_client_reset (Some ''example.com'') 0] \<and>
   fst (tls_connect_common sample_env sample_session (Some ''192.0.2.1'')) = 0 \<and>
   handshake_resets (snd (tls_connect_common sample_env sample_session (Some ''192.0.2.1'')))
     = [Br_ssl_client_reset None 0]"
proof -
  have ok: "fst (tls_connect_common sample_env sample_session sn) = 0" for sn
    by (rule sample_bootstrap_succeeds) simp_all
  have run: "tls_connect_common sample_env sample_session sn =
               (0, snd (tls_connect_common sample_env sample_session sn))" for sn
    using ok [of sn] by (simp add: prod_eq_iff)
  show ?thesis
    using canonical_sni_reaches_handshake [OF run [of "Some ''example.com.''"]]
      canonical_sni_reaches_handshake [OF run [of "Some ''192.0.2.1''"]] ok
    by simp
qed

text \<open>
  C2, as the specification states it, fails: for the server name \<^verbatim>\<open>192.0.2.1\<close>, which
  \<^verbatim>\<open>inet_pton\<close> accepts, the bootstrap succeeds and the session's \<open>servername\<close> field is
  the literal string, not absent.
\<close>

theorem servername_field_keeps_literal:
  "inet_pton sample_env AF_INET ''192.0.2.1'' = 1 \<and>
   fst (tls_connect_common sample_env sample_session (Some ''192.0.2.1'')) = 0 \<and>
   servername (snd (tls_connect_common sample_env sample_session (Some ''192.0.2.1'')))
     = Some ''192.0.2.1''"
  by (simp add: sample_bootstrap_succeeds tls_connect_common_servername)

text \<open>
  C2, amended. When the stripped server name is an IPv4 or IPv6 literal, the session's
  \<open>servername\<close> field holds the stripped literal; what is absent is the server name of
  the handshake initiation, whenever the bootstrap reaches it.
\<close>

theorem literal_withheld_from_handshake_only:
  assumes "(flags ctx AND TLS_CLIENT) \<noteq> 0" and "strdup_ok env"
    and "inet_pton env AF_INET (strip_trailing_dot s) = 1 \<or>
         inet_pton env AF_INET6 (strip_trailing_dot s) = 1"
  shows "servername (snd (tls_connect_common env ctx (Some s))) = Some (strip_trailing_dot s) \<and>
         (fst (tls_connect_common env ctx (Some s)) = 0 \<longrightarrow>
            handshake_resets (snd (tls_connect_common env ctx (Some s)))
              = [Br_ssl_client_reset None 0])"
proof (intro conjI impI)
  show "servername (snd (tls_connect_common env ctx (Some s))) = Some (strip_trailing_dot s)"
    using assms(1,2) by (rule tls_connect_common_servername)
next
  assume "fst (tls_connect_common env ctx (Some s)) = 0"
  then have "tls_connect_common env ctx (Some s) = (0, snd (tls_connect_common env ctx (Some s)))"
    by (simp add: prod_eq_iff)
  from tls_connect_common_resets [OF this] assms(3)
  show "handshake_resets (snd (tls_connect_common env ctx (Some s))) = [Br_ssl_client_reset None 0]"
    by auto
qed

theorem literal_withheld_from_handshake_only_witness:
  "(flags sample_session AND TLS_CLIENT) \<noteq> 0 \<and> strdup_ok sample_env \<and>
   inet_pton sample_env AF_INET (strip_trailing_dot ''192.0.2.1'') = 1 \<and>
   servername (snd (tls_connect_common sample_env sample_session (Some ''192.0.2.1'')))
     = Some ''192.0.2.1'' \<and>
   fst (tls_connect_common sample_env sample_session (Some ''192.0.2.1'')) = 0 \<and>
   handshake_resets (snd (tls_connect_common sample_env sample_session (Some ''192.0.2.1'')))
     = [Br_ssl_client_reset None 0]"
proof -
  have ok: "fst (tls_connect_common sample_env sample_session (Some ''192.0.2.1'')) = 0"
    by (rule sample_bootstrap_succeeds) simp_all
  from literal_withheld_from_handshake_only [of sample_session sample_env "''192.0.2.1''"] ok
  show ?thesis by simp
qed

text \<open>
  C3, as the specification states it, fails for a host name that ends in two dots: one
  dot is removed and the session's \<open>servername\<close> still ends with a dot.
\<close>

theorem servername_keeps_second_dot:
  "servername (snd (tls_connect_common sample_env sample_session (Some ''example.com..'')))
     = Some ''example.com.'' \<and>
   last ''example.com.'' = CHR ''.''"
  by (simp add: tls_connect_common_servername)

text \<open>
  C3, amended. For a host name that does not end in two dots, the session's \<open>servername\<close>
  after canonicalisation does not end with a dot.
\<close>

theorem servername_without_trailing_dot:
  assumes "(flags ctx AND TLS_CLIENT) \<noteq> 0" and "strdup_ok env"
    and "\<not> (2 \<le> length s \<and> last s = CHR ''.'' \<and> last (butlast s) = CHR ''.'')"
  shows "case servername (snd (tls_connect_common env ctx (Some s))) of
           None \<Rightarrow> False
         | Some t \<Rightarrow> t = [] \<or> last t \<noteq> CHR ''.''"
proof -
  have "butlast s \<noteq> [] \<Longrightarrow> 2 \<le> length s"
    by (cases s rule: rev_cases) (auto simp: Suc_le_eq)
  with assms(3) have "strip_trailing_dot s = [] \<or> last (strip_trailing_dot s) \<noteq> CHR ''.''"
    by (auto simp: strip_trailing_dot_butlast)
  then show ?thesis
    by (simp add: tls_connect_common_servername [OF assms(1,2)])
qed

theorem servername_without_trailing_dot_witness:
  "(flags sample_session AND TLS_CLIENT) \<noteq> 0 \<and> strdup_ok sample_env \<and>
   \<not> (2 \<le> length ''example.com.'' \<and> last ''example.com.'' = CHR ''.'' \<and>
      last (butlast ''example.com.'') = CHR ''.'') \<and>
   servername (snd (tls_connect_common sample_env sample_session (Some ''example.com.'')))
     = Some ''example.com''"
proof -
  have "servername (snd (tls_connect_common sample_env sample_session (Some ''example.com.'')))
          = Some ''example.com''"
    by (simp add: tls_connect_common_servername)
  with servername_without_trailing_dot [of sample_session sample_env "''example.com.''"]
  show ?thesis by simp
qed

section \<open>Outcome of the bootstrap\<close>

lemma tls_connect_common_frame:
  "flags (snd (tls_connect_common env ctx sn)) = flags ctx \<and>
   config (snd (tls_connect_common env ctx sn)) = config ctx \<and>
   socket (snd (tls_connect_common env ctx sn)) = socket ctx \<and>
   fd_read (snd (tls_connect_common env ctx sn)) = fd_read ctx \<and>
   fd_write (snd (tls_connect_common env ctx sn)) = fd_write ctx \<and>
   read_cb (snd (tls_connect_common env ctx sn)) = read_cb ctx \<and>
   write_cb (snd (tls_connect_common env ctx sn)) = write_cb ctx \<and>
   cb_arg (snd (tls_connect_common env ctx sn)) = cb_arg ctx"
  by (cases sn)
     (auto simp: tls_connect_common_def connect_common_servername_def Let_def
       split: prod.splits option.splits)

lemma tls_connect_common_ok_iff:
  "fst (tls_connect_common env ctx sn) = 0 \<longleftrightarrow>
     (flags ctx AND TLS_CLIENT) \<noteq> 0 \<and> (sn = None \<or> strdup_ok env) \<and>
     ocsp_require_stapling (config ctx) = 0 \<and> fst (tls_conn_new env) \<noteq> None \<and>
     fst (tls_configure_x509 env) = 0 \<and>
     (verify_name (config ctx) = 0 \<or>
      (case sn of
         None \<Rightarrow> False
       | Some s \<Rightarrow> inet_pton env AF_INET (strip_trailing_dot s) \<noteq> 1 \<and>
                  inet_pton env AF_INET6 (strip_trailing_dot s) \<noteq> 1))"
  by (cases sn)
     (auto simp: tls_connect_common_def connect_common_servername_def Let_def
       split: prod.splits option.splits)

lemma tls_connect_common_state:
  "state (snd (tls_connect_common env ctx sn)) =
     (if fst (tls_connect_common env ctx sn) = 0 then state ctx OR TLS_CONNECTED else state ctx)"
  by (cases sn)
     (auto simp: tls_connect_common_def connect_common_servername_def Let_def
       split: prod.splits option.splits)

lemma tls_connect_common_calls:
  assumes "tls_connect_common env ctx sn = (0, ctx')"
  shows "conn ctx' \<noteq> None \<and>
         butlast (engine_calls ctx') =
           Br_ssl_client_set_default_rsapub #
           (case keypair (config ctx) of
              None \<Rightarrow> []
            | Some kp \<Rightarrow>
                if key_type kp = BR_KEYTYPE_RSA
                then [Br_ssl_client_set_single_rsa (kp_chain kp) (chain_len kp) (kp_key kp)
                        Br_rsa_pkcs1_sign_get_default]
                else if key_type kp = BR_KEYTYPE_EC
                then [Br_ssl_client_set_single_ec (kp_chain kp) (chain_len kp) (kp_key kp)
                        BR_KEYTYPE_SIGN (signer_key_type kp) Br_ec_get_default
                        Br_ecdsa_sign_asn1_get_default]
                else [])"
proof -
  from assms obtain ctx1 sni a e1 e2 where
    sn: "connect_common_servername env ctx sn = Inr (ctx1, sni)" and
    ctx': "ctx' = (br (connect_common_keypair (br (callee_error (callee_error
               (ctx1\<lparr>conn := Some \<lparr>conn_id = a, br_calls = []\<rparr>\<rparr>) e1) e2)
               Br_ssl_client_set_default_rsapub)) (Br_ssl_client_reset sni 0))
             \<lparr>state := state ctx1 OR TLS_CONNECTED\<rparr>"
    by (rule tls_connect_common_success)
  from connect_common_servername_Inr [OF sn] have cfg: "config ctx1 = config ctx"
    by simp
  show ?thesis
    unfolding ctx' by (simp add: engine_calls_keypair cfg split: option.split)
qed

lemma conn_id_connect_common_keypair [simp]:
  "map_option conn_id (conn (connect_common_keypair ctx)) = map_option conn_id (conn ctx)"
  by (cases "conn ctx") (auto simp: connect_common_keypair_def split: option.splits)

lemma tls_connect_common_allocated:
  assumes "(flags ctx AND TLS_CLIENT) \<noteq> 0" and "sn = None \<or> strdup_ok env"
    and "ocsp_require_stapling (config ctx) = 0" and "tls_conn_new env = (Some a, err)"
    and "fst (tls_connect_common env ctx sn) \<noteq> 0"
  shows "map_option conn_id (conn (snd (tls_connect_common env ctx sn))) = Some a \<and>
         (fst (tls_configure_x509 env) = 0 \<longrightarrow>
            error_msg (snd (tls_connect_common env ctx sn)) = Some ''server name not specified'')"
  using assms unfolding tls_connect_common_ok_iff [of env ctx sn]
  by (cases sn; cases "tls_configure_x509 env")
     (auto simp: tls_connect_common_def connect_common_servername_def Let_def
       simp del: map_option_eq_Some)


lemma tls_connect_fds_ok_iff:
  "fst (tls_connect_fds env ctx fr fw sn) = 0 \<longleftrightarrow>
     0 \<le> fr \<and> 0 \<le> fw \<and> fst (tls_connect_common env ctx sn) = 0"
  by (auto simp: tls_connect_fds_def split: prod.splits)

lemma tls_connect_fds_success:
  assumes "tls_connect_fds env ctx fr fw sn = (0, ctx1)"
  shows "0 \<le> fr \<and> 0 \<le> fw \<and> fst (tls_connect_common env ctx sn) = 0 \<and>
         ctx1 = (snd (tls_connect_common env ctx sn))
                  \<lparr>fd_read := fr, read_cb := Some Tls_fd_read_cb,
                    fd_write := fw, write_cb := Some Tls_fd_write_cb, cb_arg := None\<rparr>"
  using assms by (auto simp: tls_connect_fds_def split: prod.splits if_splits)

lemma tls_connect_cbs_ok_iff:
  "fst (tls_connect_cbs env ctx rcb wcb arg sn) = 0 \<longleftrightarrow>
     fst (tls_connect_common env ctx sn) = 0 \<and> rcb \<noteq> None \<and> wcb \<noteq> None"
  by (auto simp: tls_connect_cbs_def split: prod.splits)

lemma tls_connect_cbs_success:
  assumes "fst (tls_connect_common env ctx sn) = 0" and "rcb \<noteq> None" and "wcb \<noteq> None"
  shows "snd (tls_connect_cbs env ctx rcb wcb arg sn) =
           (snd (tls_connect_common env ctx sn))\<lparr>read_cb := rcb, write_cb := wcb, cb_arg := arg\<rparr>"
  using assms by (auto simp: tls_connect_cbs_def split: prod.splits)

lemma tls_connect_fds_failure:
  assumes "0 \<le> fr" and "0 \<le> fw" and "fst (tls_connect_common env ctx sn) \<noteq> 0"
  shows "tls_connect_fds env ctx fr fw sn = (- 1, snd (tls_connect_common env ctx sn))"
  using assms by (auto simp: tls_connect_fds_def split: prod.splits)

lemma tls_connect_cbs_failure:
  assumes "fst (tls_connect_common env ctx sn) \<noteq> 0"
  shows "tls_connect_cbs env ctx rcb wcb arg sn = (- 1, snd (tls_connect_common env ctx sn))"
  using assms by (auto simp: tls_connect_cbs_def split: prod.splits)

lemma sample_keypair_fields [simp]:
  "key_type (sample_keypair kt) = kt"
  "kp_chain (sample_keypair kt) = [7]"
  "chain_len (sample_keypair kt) = 1"
  "kp_key (sample_keypair kt) = 9"
  "signer_key_type (sample_keypair kt) = BR_KEYTYPE_RSA"
  by (simp_all add: sample_keypair_def)

section \<open>Re-invocation\<close>

text \<open>
  C4, as the specification states it, fails: after \<^verbatim>\<open>tls_connect_fds\<close> has succeeded
  and marked the session connected, \<^verbatim>\<open>tls_connect_cbs\<close> on the same session succeeds
  too.
\<close>

theorem second_bootstrap_accepted:
  "fst (tls_connect_fds sample_env sample_session 3 3 (Some ''example.com'')) = 0 \<and>
   (state (snd (tls_connect_fds sample_env sample_session 3 3 (Some ''example.com'')))
      AND TLS_CONNECTED) \<noteq> 0 \<and>
   fst (tls_connect_cbs sample_env
          (snd (tls_connect_fds sample_env sample_session 3 3 (Some ''example.com'')))
          (Some (User_cb 1)) (Some (User_cb 2)) None (Some ''example.com'')) = 0"
proof -
  have ok: "fst (tls_connect_common sample_env sample_session (Some ''example.com'')) = 0"
    by (rule sample_bootstrap_succeeds) simp_all
  then have fds: "fst (tls_connect_fds sample_env sample_session 3 3 (Some ''example.com'')) = 0"
    by (simp add: tls_connect_fds_ok_iff)
  then have run: "tls_connect_fds sample_env sample_session 3 3 (Some ''example.com'') =
      (0, snd (tls_connect_fds sample_env sample_session 3 3 (Some ''example.com'')))"
    by (simp add: prod_eq_iff)
  note s = tls_connect_fds_success [OF run]
  have st: "(state (snd (tls_connect_fds sample_env sample_session 3 3 (Some ''example.com'')))
      AND TLS_CONNECTED) \<noteq> 0"
    by (subst conjunct2 [OF conjunct2 [OF conjunct2 [OF s]]])
       (simp add: tls_connect_common_state ok)
  have "fst (tls_connect_common sample_env
          (snd (tls_connect_fds sample_env sample_session 3 3 (Some ''example.com'')))
          (Some ''example.com'')) = 0"
    by (subst conjunct2 [OF conjunct2 [OF conjunct2 [OF s]]], rule sample_bootstrap_succeeds)
       (simp_all add: tls_connect_common_frame)
  with fds st show ?thesis
    by (simp add: tls_connect_cbs_ok_iff)
qed

text \<open>
  C4, amended. The bootstrap has no guard against running twice. After a successful
  \<^verbatim>\<open>tls_connect_fds\<close> the session is marked connected, and a second bootstrap with the
  same server name succeeds again through \<^verbatim>\<open>tls_connect_common\<close>, \<^verbatim>\<open>tls_connect_fds\<close>
  and, given two callbacks, \<^verbatim>\<open>tls_connect_cbs\<close>, which replaces the callbacks and
  leaves the descriptors bound before.
\<close>

theorem bootstrap_runs_again:
  assumes "tls_connect_fds env ctx fr fw sn = (0, ctx1)" and "rcb \<noteq> None" and "wcb \<noteq> None"
  shows "(state ctx1 AND TLS_CONNECTED) \<noteq> 0 \<and>
         fst (tls_connect_common env ctx1 sn) = 0 \<and>
         fst (tls_connect_fds env ctx1 fr fw sn) = 0 \<and>
         fst (tls_connect_cbs env ctx1 rcb wcb arg sn) = 0 \<and>
         read_cb (snd (tls_connect_cbs env ctx1 rcb wcb arg sn)) = rcb \<and>
         write_cb (snd (tls_connect_cbs env ctx1 rcb wcb arg sn)) = wcb \<and>
         cb_arg (snd (tls_connect_cbs env ctx1 rcb wcb arg sn)) = arg \<and>
         fd_read (snd (tls_connect_cbs env ctx1 rcb wcb arg sn)) = fr \<and>
         fd_write (snd (tls_connect_cbs env ctx1 rcb wcb arg sn)) = fw"
proof -
  note s = tls_connect_fds_success [OF assms(1)]
  from s have ok: "fst (tls_connect_common env ctx sn) = 0" and fds: "0 \<le> fr" "0 \<le> fw"
    by simp_all
  from s have fl: "flags ctx1 = flags ctx" and cf: "config ctx1 = config ctx"
    and fd: "fd_read ctx1 = fr" "fd_write ctx1 = fw"
    by (simp_all add: tls_connect_common_frame)
  from s have st: "state ctx1 = state ctx OR TLS_CONNECTED"
    by (simp add: tls_connect_common_state ok)
  have again: "fst (tls_connect_common env ctx1 sn) = 0"
    using ok unfolding tls_connect_common_ok_iff fl cf .
  have "(state ctx1 AND TLS_CONNECTED) \<noteq> 0"
    by (simp add: st)
  moreover note again
  moreover have "fst (tls_connect_fds env ctx1 fr fw sn) = 0"
    using again fds by (simp add: tls_connect_fds_ok_iff)
  moreover have "fst (tls_connect_cbs env ctx1 rcb wcb arg sn) = 0"
    using again assms(2,3) by (simp add: tls_connect_cbs_ok_iff)
  moreover have "snd (tls_connect_cbs env ctx1 rcb wcb arg sn) =
      (snd (tls_connect_common env ctx1 sn))\<lparr>read_cb := rcb, write_cb := wcb, cb_arg := arg\<rparr>"
    using again assms(2,3) by (rule tls_connect_cbs_success)
  ultimately show ?thesis
    by (simp add: tls_connect_common_frame fd)
qed

theorem bootstrap_runs_again_witness:
  "fst (tls_connect_fds sample_env sample_session 3 4 (Some ''example.com'')) = 0 \<and>
   fst (tls_connect_cbs sample_env
          (snd (tls_connect_fds sample_env sample_session 3 4 (Some ''example.com'')))
          (Some (User_cb 1)) (Some (User_cb 2)) (Some 5) (Some ''example.com'')) = 0 \<and>
   read_cb (snd (tls_connect_cbs sample_env
          (snd (tls_connect_fds sample_env sample_session 3 4 (Some ''example.com'')))
          (Some (User_cb 1)) (Some (User_cb 2)) (Some 5) (Some ''example.com''))) = Some (User_cb 1) \<and>
   fd_read (snd (tls_connect_cbs sample_env
          (snd (tls_connect_fds sample_env sample_session 3 4 (Some ''example.com'')))
          (Some (User_cb 1)) (Some (User_cb 2)) (Some 5) (Some ''example.com''))) = 3"
proof -
  have "fst (tls_connect_common sample_env sample_session (Some ''example.com'')) = 0"
    by (rule sample_bootstrap_succeeds) simp_all
  then have fds: "fst (tls_connect_fds sample_env sample_session 3 4 (Some ''example.com'')) = 0"
    by (simp add: tls_connect_fds_ok_iff)
  then have run: "tls_connect_fds sample_env sample_session 3 4 (Some ''example.com'') =
      (0, snd (tls_connect_fds sample_env sample_session 3 4 (Some ''example.com'')))"
    by (simp add: prod_eq_iff)
  from bootstrap_runs_again [OF run, of "Some (User_cb 1)" "Some (User_cb 2)" "Some 5"] fds
  show ?thesis by simp
qed

section \<open>Credential binding\<close>

text \<open>
  C5, as the specification states it, fails in its last part: with a configured keypair
  whose key type is neither \<^verbatim>\<open>BR_KEYTYPE_RSA\<close> nor \<^verbatim>\<open>BR_KEYTYPE_EC\<close> the bootstrap
  succeeds, reports no error and binds no credential.
\<close>

theorem other_key_type_not_reported:
  "key_type (sample_keypair 0) \<noteq> BR_KEYTYPE_RSA \<and>
   key_type (sample_keypair 0) \<noteq> BR_KEYTYPE_EC \<and>
   fst (tls_connect_common sample_env
          (sample_session\<lparr>config := \<lparr>ocsp_require_stapling = 0, verify_name = 0,
                                       keypair = Some (sample_keypair 0)\<rparr>\<rparr>) None) = 0 \<and>
   error_msg (snd (tls_connect_common sample_env
          (sample_session\<lparr>config := \<lparr>ocsp_require_stapling = 0, verify_name = 0,
                                       keypair = Some (sample_keypair 0)\<rparr>\<rparr>) None)) = None \<and>
   engine_calls (snd (tls_connect_common sample_env
          (sample_session\<lparr>config := \<lparr>ocsp_require_stapling = 0, verify_name = 0,
                                       keypair = Some (sample_keypair 0)\<rparr>\<rparr>) None))
     = [Br_ssl_client_set_default_rsapub, Br_ssl_client_reset None 0]"
  by (simp add: tls_connect_common_def connect_common_servername_def Let_def
      engine_calls_keypair BR_KEYTYPE_RSA_def BR_KEYTYPE_EC_def)

text \<open>
  C5, amended. When the bootstrap succeeds, the calls on the connection before the
  handshake initiation are the default public-key policy and then, for a configured
  keypair, \<^verbatim>\<open>br_ssl_client_set_single_rsa\<close> with the default PKCS#1 v1.5 signer for an
  RSA key and \<^verbatim>\<open>br_ssl_client_set_single_ec\<close> with the default ASN.1 ECDSA signer for
  an EC key; for a keypair of any other key type no credential is bound. The result of
  the bootstrap does not depend on the keypair: this step reports no error.
\<close>

theorem keypair_bound_by_key_type:
  assumes "tls_connect_common env ctx sn = (0, ctx')"
  shows "butlast (engine_calls ctx') =
           Br_ssl_client_set_default_rsapub #
           (case keypair (config ctx) of
              None \<Rightarrow> []
            | Some kp \<Rightarrow>
                if key_type kp = BR_KEYTYPE_RSA
                then [Br_ssl_client_set_single_rsa (kp_chain kp) (chain_len kp) (kp_key kp)
                        Br_rsa_pkcs1_sign_get_default]
                else if key_type kp = BR_KEYTYPE_EC
                then [Br_ssl_client_set_single_ec (kp_chain kp) (chain_len kp) (kp_key kp)
                        BR_KEYTYPE_SIGN (signer_key_type kp) Br_ec_get_default
                        Br_ecdsa_sign_asn1_get_default]
                else []) \<and>
         fst (tls_connect_common env (ctx\<lparr>config := (config ctx)\<lparr>keypair := kp'\<rparr>\<rparr>) sn) = 0"
proof -
  from assms have "fst (tls_connect_common env ctx sn) = 0"
    by simp
  then have "fst (tls_connect_common env (ctx\<lparr>config := (config ctx)\<lparr>keypair := kp'\<rparr>\<rparr>) sn) = 0"
    unfolding tls_connect_common_ok_iff by simp
  with tls_connect_common_calls [OF assms] show ?thesis
    by simp
qed

theorem keypair_bound_by_key_type_witness:
  "fst (tls_connect_common sample_env
          (sample_session\<lparr>config := \<lparr>ocsp_require_stapling = 0, verify_name = 0,
             keypair = Some (sample_keypair BR_KEYTYPE_RSA)\<rparr>\<rparr>) None) = 0 \<and>
   butlast (engine_calls (snd (tls_connect_common sample_env
          (sample_session\<lparr>config := \<lparr>ocsp_require_stapling = 0, verify_name = 0,
             keypair = Some (sample_keypair BR_KEYTYPE_RSA)\<rparr>\<rparr>) None)))
     = [Br_ssl_client_set_default_rsapub,
        Br_ssl_client_set_single_rsa [7] 1 9 Br_rsa_pkcs1_sign_get_default] \<and>
   fst (tls_connect_common sample_env
          (sample_session\<lparr>config := \<lparr>ocsp_require_stapling = 0, verify_name = 0,
             keypair = Some (sample_keypair BR_KEYTYPE_EC)\<rparr>\<rparr>) None) = 0 \<and>
   butlast (engine_calls (snd (tls_connect_common sample_env
          (sample_session\<lparr>config := \<lparr>ocsp_require_stapling = 0, verify_name = 0,
             keypair = Some (sample_keypair BR_KEYTYPE_EC)\<rparr>\<rparr>) None)))
     = [Br_ssl_client_set_default_rsapub,
        Br_ssl_client_set_single_ec [7] 1 9 BR_KEYTYPE_SIGN BR_KEYTYPE_RSA Br_ec_get_default
          Br_ecdsa_sign_asn1_get_default]"
proof -
  have ok: "fst (tls_connect_common sample_env
          (sample_session\<lparr>config := \<lparr>ocsp_require_stapling = 0, verify_name = 0,
             keypair = Some (sample_keypair kt)\<rparr>\<rparr>) None) = 0" for kt
    by (rule sample_bootstrap_succeeds) simp_all
  have run: "tls_connect_common sample_env
          (sample_session\<lparr>config := \<lparr>ocsp_require_stapling = 0, verify_name = 0,
             keypair = Some (sample_keypair kt)\<rparr>\<rparr>) None =
        (0, snd (tls_connect_common sample_env
          (sample_session\<lparr>config := \<lparr>ocsp_require_stapling = 0, verify_name = 0,
             keypair = Some (sample_keypair kt)\<rparr>\<rparr>) None))" for kt
    using ok [of kt] by (simp add: prod_eq_iff)
  from keypair_bound_by_key_type [OF run [of BR_KEYTYPE_RSA]]
    keypair_bound_by_key_type [OF run [of BR_KEYTYPE_EC]] ok
  show ?thesis
    by (simp add: BR_KEYTYPE_RSA_def BR_KEYTYPE_EC_def)
qed

section \<open>Failure of the bootstrap\<close>

text \<open>
  C6, as the specification states it, fails in its last part: when server-name
  verification is required and no server name is given, the bootstrap fails after the
  connection object was allocated, and the object is still the session's connection.
\<close>

theorem failed_bootstrap_keeps_connection:
  "fst (tls_connect_common sample_env
          (sample_session\<lparr>config := \<lparr>ocsp_require_stapling = 0, verify_name = 1,
                                       keypair = None\<rparr>\<rparr>) None) = - 1 \<and>
   conn (snd (tls_connect_common sample_env
          (sample_session\<lparr>config := \<lparr>ocsp_require_stapling = 0, verify_name = 1,
                                       keypair = None\<rparr>\<rparr>) None))
     = Some \<lparr>conn_id = 1, br_calls = [Br_ssl_client_set_default_rsapub]\<rparr>"
  by (simp add: tls_connect_common_def connect_common_servername_def Let_def
      connect_common_keypair_def)

text \<open>
  C6, amended. If the bootstrap fails at a step after the connection object was
  allocated, the session's state is unchanged (not marked connected), the allocated
  object stays the session's connection (the bootstrap does not release it), and when
  the failing step is the server-name requirement the error is
  \<^verbatim>\<open>server name not specified\<close>.
\<close>

theorem failure_after_allocation:
  assumes "(flags ctx AND TLS_CLIENT) \<noteq> 0" and "sn = None \<or> strdup_ok env"
    and "ocsp_require_stapling (config ctx) = 0" and "tls_conn_new env = (Some a, err)"
    and "fst (tls_connect_common env ctx sn) \<noteq> 0"
  shows "state (snd (tls_connect_common env ctx sn)) = state ctx \<and>
         map_option conn_id (conn (snd (tls_connect_common env ctx sn))) = Some a \<and>
         (fst (tls_configure_x509 env) = 0 \<longrightarrow>
            error_msg (snd (tls_connect_common env ctx sn)) = Some ''server name not specified'')"
  using tls_connect_common_allocated [OF assms] assms(5)
  by (simp add: tls_connect_common_state)

theorem failure_after_allocation_witness:
  "(flags sample_session AND TLS_CLIENT) \<noteq> 0 \<and>
   tls_conn_new sample_env = (Some 1, None) \<and>
   fst (tls_configure_x509 sample_env) = 0 \<and>
   fst (tls_connect_common sample_env
          (sample_session\<lparr>config := \<lparr>ocsp_require_stapling = 0, verify_name = 1,
                                       keypair = None\<rparr>\<rparr>) None) \<noteq> 0 \<and>
   state (snd (tls_connect_common sample_env
          (sample_session\<lparr>config := \<lparr>ocsp_require_stapling = 0, verify_name = 1,
                                       keypair = None\<rparr>\<rparr>) None)) = 0 \<and>
   map_option conn_id (conn (snd (tls_connect_common sample_env
          (sample_session\<lparr>config := \<lparr>ocsp_require_stapling = 0, verify_name = 1,
                                       keypair = None\<rparr>\<rparr>) None))) = Some 1 \<and>
   error_msg (snd (tls_connect_common sample_env
          (sample_session\<lparr>config := \<lparr>ocsp_require_stapling = 0, verify_name = 1,
                                       keypair = None\<rparr>\<rparr>) None)) = Some ''server name not specified''"
proof -
  have bad: "fst (tls_connect_common sample_env
          (sample_session\<lparr>config := \<lparr>ocsp_require_stapling = 0, verify_name = 1,
                                       keypair = None\<rparr>\<rparr>) None) \<noteq> 0"
    by (simp add: tls_connect_common_ok_iff)
  from failure_after_allocation [where env = sample_env and sn = None and a = 1 and err = None and
      ctx = "sample_session\<lparr>config :=
        \<lparr>ocsp_require_stapling = 0, verify_name = 1, keypair = None\<rparr>\<rparr>"] bad
  show ?thesis
    by simp
qed

text \<open>
  C9, as the specification states it, fails on a session that is connected already. A
  first \<^verbatim>\<open>tls_connect_fds\<close> with a server name succeeds and marks the session
  connected; a second one without a server name, under required server-name
  verification, fails with \<^verbatim>\<open>server name not specified\<close> and the state is still
  marked connected.
\<close>

theorem verify_failure_keeps_connected_state:
  "fst (tls_connect_fds sample_env
          (sample_session\<lparr>config := \<lparr>ocsp_require_stapling = 0, verify_name = 1,
                                       keypair = None\<rparr>\<rparr>) 3 3 (Some ''example.com'')) = 0 \<and>
   fst (tls_connect_fds sample_env
          (snd (tls_connect_fds sample_env
             (sample_session\<lparr>config := \<lparr>ocsp_require_stapling = 0, verify_name = 1,
                                          keypair = None\<rparr>\<rparr>) 3 3 (Some ''example.com'')))
          3 3 None) = - 1 \<and>
   error_msg (snd (tls_connect_fds sample_env
          (snd (tls_connect_fds sample_env
             (sample_session\<lparr>config := \<lparr>ocsp_require_stapling = 0, verify_name = 1,
                                          keypair = None\<rparr>\<rparr>) 3 3 (Some ''example.com'')))
          3 3 None)) = Some ''server name not specified'' \<and>
   (state (snd (tls_connect_fds sample_env
          (snd (tls_connect_fds sample_env
             (sample_session\<lparr>config := \<lparr>ocsp_require_stapling = 0, verify_name = 1,
                                          keypair = None\<rparr>\<rparr>) 3 3 (Some ''example.com'')))
          3 3 None)) AND TLS_CONNECTED) \<noteq> 0"
proof -
  define vs where "vs = sample_session\<lparr>config := \<lparr>ocsp_require_stapling = 0, verify_name = 1,
                                                  keypair = None\<rparr>\<rparr>"
  define c1 where "c1 = snd (tls_connect_fds sample_env vs 3 3 (Some ''example.com''))"
  have ok: "fst (tls_connect_common sample_env vs (Some ''example.com'')) = 0"
    by (simp add: tls_connect_common_ok_iff vs_def)
  then have fds: "fst (tls_connect_fds sample_env vs 3 3 (Some ''example.com'')) = 0"
    by (simp add: tls_connect_fds_ok_iff)
  then have "tls_connect_fds sample_env vs 3 3 (Some ''example.com'') = (0, c1)"
    by (simp add: prod_eq_iff c1_def)
  from tls_connect_fds_success [OF this]
  have c1: "c1 = (snd (tls_connect_common sample_env vs (Some ''example.com'')))
                   \<lparr>fd_read := 3, read_cb := Some Tls_fd_read_cb,
                     fd_write := 3, write_cb := Some Tls_fd_write_cb, cb_arg := None\<rparr>"
    by simp
  have fl: "flags c1 = TLS_CLIENT"
    and cf: "config c1 = \<lparr>ocsp_require_stapling = 0, verify_name = 1, keypair = None\<rparr>"
    by (simp_all add: c1 tls_connect_common_frame vs_def)
  have st: "state c1 = state vs OR TLS_CONNECTED"
    by (simp add: c1 tls_connect_common_state ok)
  have bad: "fst (tls_connect_common sample_env c1 None) \<noteq> 0"
    by (simp add: tls_connect_common_ok_iff cf)
  have run: "tls_connect_fds sample_env c1 3 3 None =
               (- 1, snd (tls_connect_common sample_env c1 None))"
    by (rule tls_connect_fds_failure [OF _ _ bad]) simp_all
  have "error_msg (snd (tls_connect_common sample_env c1 None)) = Some ''server name not specified''"
    using tls_connect_common_allocated [where env = sample_env and ctx = c1 and sn = None
        and a = 1 and err = None] bad
    by (simp add: fl cf)
  moreover have "state (snd (tls_connect_common sample_env c1 None)) = state c1"
    using bad by (simp add: tls_connect_common_state)
  ultimately show ?thesis
    using fds run unfolding c1_def [symmetric] vs_def [symmetric]
    by (simp add: st)
qed

text \<open>
  C9, amended. Whenever the configuration requires server-name verification and the
  canonical server name is absent (no name was given, or the stripped name is an IPv4
  or IPv6 literal), the bootstrap fails and leaves the session's state as it was, so a
  session that was not connected stays not connected; when the steps before the check
  pass (client session, name duplicated, no OCSP stapling required, connection
  allocated, X.509 configured), the error is the configuration error
  \<^verbatim>\<open>server name not specified\<close>.
\<close>

theorem verify_name_requires_servername:
  assumes "verify_name (config ctx) \<noteq> 0"
    and "case sn of
           None \<Rightarrow> True
         | Some s \<Rightarrow> inet_pton env AF_INET (strip_trailing_dot s) = 1 \<or>
                    inet_pton env AF_INET6 (strip_trailing_dot s) = 1"
  shows "fst (tls_connect_common env ctx sn) = - 1 \<and>
         state (snd (tls_connect_common env ctx sn)) = state ctx \<and>
         ((state ctx AND TLS_CONNECTED) = 0 \<longrightarrow>
            (state (snd (tls_connect_common env ctx sn)) AND TLS_CONNECTED) = 0) \<and>
         ((flags ctx AND TLS_CLIENT) \<noteq> 0 \<and> (sn = None \<or> strdup_ok env) \<and>
          ocsp_require_stapling (config ctx) = 0 \<and> fst (tls_conn_new env) \<noteq> None \<and>
          fst (tls_configure_x509 env) = 0 \<longrightarrow>
            error_msg (snd (tls_connect_common env ctx sn)) = Some ''server name not specified'')"
proof -
  have bad: "fst (tls_connect_common env ctx sn) \<noteq> 0"
    using assms unfolding tls_connect_common_ok_iff by (auto split: option.splits)
  with tls_connect_common_result [of env ctx sn]
  have "fst (tls_connect_common env ctx sn) = - 1"
    by simp
  moreover from bad have "state (snd (tls_connect_common env ctx sn)) = state ctx"
    by (simp add: tls_connect_common_state)
  moreover have "error_msg (snd (tls_connect_common env ctx sn)) = Some ''server name not specified''"
    if "(flags ctx AND TLS_CLIENT) \<noteq> 0" "sn = None \<or> strdup_ok env"
      "ocsp_require_stapling (config ctx) = 0" "fst (tls_conn_new env) \<noteq> None"
      "fst (tls_configure_x509 env) = 0"
  proof -
    from that(4) obtain a e where "tls_conn_new env = (Some a, e)"
      by (cases "tls_conn_new env") auto
    from tls_connect_common_allocated [OF that(1-3) this bad] that(5)
    show ?thesis by simp
  qed
  ultimately show ?thesis
    by simp
qed

theorem verify_name_requires_servername_witness:
  "fst (tls_connect_common sample_env
          (sample_session\<lparr>config := \<lparr>ocsp_require_stapling = 0, verify_name = 1,
                                       keypair = None\<rparr>\<rparr>) None) = - 1 \<and>
   fst (tls_connect_common sample_env
          (sample_session\<lparr>config := \<lparr>ocsp_require_stapling = 0, verify_name = 1,
                                       keypair = None\<rparr>\<rparr>) (Some ''192.0.2.1'')) = - 1 \<and>
   (state (snd (tls_connect_common sample_env
          (sample_session\<lparr>config := \<lparr>ocsp_require_stapling = 0, verify_name = 1,
                                       keypair = None\<rparr>\<rparr>) (Some ''192.0.2.1''))) AND TLS_CONNECTED)
     = 0 \<and>
   error_msg (snd (tls_connect_common sample_env
          (sample_session\<lparr>config := \<lparr>ocsp_require_stapling = 0, verify_name = 1,
                                       keypair = None\<rparr>\<rparr>) (Some ''192.0.2.1'')))
     = Some ''server name not specified''"
  using verify_name_requires_servername [where env = sample_env and sn = None and
      ctx = "sample_session\<lparr>config :=
        \<lparr>ocsp_require_stapling = 0, verify_name = 1, keypair = None\<rparr>\<rparr>"]
    verify_name_requires_servername [where env = sample_env and sn = "Some ''192.0.2.1''" and
      ctx = "sample_session\<lparr>config :=
        \<lparr>ocsp_require_stapling = 0, verify_name = 1, keypair = None\<rparr>\<rparr>"]
  by simp

section \<open>Callbacks\<close>

text \<open>
  C10, as the specification states it, fails on a client session whose bootstrap
  fails: with server-name verification required, no server name and no callbacks,
  \<^verbatim>\<open>tls_connect_cbs\<close> returns -1 with the error of the bootstrap,
  \<^verbatim>\<open>server name not specified\<close>, and the state is not marked connected.
\<close>

theorem missing_callback_masked_by_bootstrap_error:
  "(flags (sample_session\<lparr>config := \<lparr>ocsp_require_stapling = 0, verify_name = 1,
                                        keypair = None\<rparr>\<rparr>) AND TLS_CLIENT) \<noteq> 0 \<and>
   fst (tls_connect_cbs sample_env
          (sample_session\<lparr>config := \<lparr>ocsp_require_stapling = 0, verify_name = 1,
                                       keypair = None\<rparr>\<rparr>) None None None None) = - 1 \<and>
   error_msg (snd (tls_connect_cbs sample_env
          (sample_session\<lparr>config := \<lparr>ocsp_require_stapling = 0, verify_name = 1,
                                       keypair = None\<rparr>\<rparr>) None None None None))
     = Some ''server name not specified'' \<and>
   state (snd (tls_connect_cbs sample_env
          (sample_session\<lparr>config := \<lparr>ocsp_require_stapling = 0, verify_name = 1,
                                       keypair = None\<rparr>\<rparr>) None None None None)) = 0"
proof -
  define vs where "vs = sample_session\<lparr>config := \<lparr>ocsp_require_stapling = 0, verify_name = 1,
                                                  keypair = None\<rparr>\<rparr>"
  have bad: "fst (tls_connect_common sample_env vs None) \<noteq> 0"
    by (simp add: tls_connect_common_ok_iff vs_def)
  have run: "tls_connect_cbs sample_env vs None None None None =
               (- 1, snd (tls_connect_common sample_env vs None))"
    using bad by (rule tls_connect_cbs_failure)
  have "error_msg (snd (tls_connect_common sample_env vs None)) = Some ''server name not specified''"
    using tls_connect_common_allocated [where env = sample_env and ctx = vs and sn = None
        and a = 1 and err = None] bad
    by (simp add: vs_def)
  moreover have "state (snd (tls_connect_common sample_env vs None)) = 0"
    using bad by (simp add: tls_connect_common_state vs_def)
  moreover have "(flags vs AND TLS_CLIENT) \<noteq> 0"
    by (simp add: vs_def)
  ultimately show ?thesis
    using run unfolding vs_def [symmetric]
    by simp
qed

text \<open>
  C10, amended. \<^verbatim>\<open>tls_connect_cbs\<close> with a read or a write callback that is \<^verbatim>\<open>NULL\<close>
  returns -1 on every session. It tests the callbacks after the bootstrap: on every
  session whose bootstrap succeeds, the error is \<^verbatim>\<open>no callbacks provided\<close>, the
  session keeps the connection object the bootstrap allocated, its state is marked
  connected despite the error return, and its callbacks are unchanged; on a session
  whose bootstrap fails, the session is left as the failed bootstrap left it, with the
  error of the bootstrap.
\<close>

theorem missing_callback_after_bootstrap:
  assumes "rcb = None \<or> wcb = None"
  shows "fst (tls_connect_cbs env ctx rcb wcb arg sn) = - 1 \<and>
         (fst (tls_connect_common env ctx sn) = 0 \<longrightarrow>
            error_msg (snd (tls_connect_cbs env ctx rcb wcb arg sn)) = Some ''no callbacks provided'' \<and>
            conn (snd (tls_connect_cbs env ctx rcb wcb arg sn)) \<noteq> None \<and>
            (state (snd (tls_connect_cbs env ctx rcb wcb arg sn)) AND TLS_CONNECTED) \<noteq> 0 \<and>
            read_cb (snd (tls_connect_cbs env ctx rcb wcb arg sn)) = read_cb ctx \<and>
            write_cb (snd (tls_connect_cbs env ctx rcb wcb arg sn)) = write_cb ctx) \<and>
         (fst (tls_connect_common env ctx sn) \<noteq> 0 \<longrightarrow>
            snd (tls_connect_cbs env ctx rcb wcb arg sn) = snd (tls_connect_common env ctx sn))"
proof (intro conjI impI)
  show "fst (tls_connect_cbs env ctx rcb wcb arg sn) = - 1"
    using assms by (auto simp: tls_connect_cbs_def split: prod.splits)
next
  assume "fst (tls_connect_common env ctx sn) \<noteq> 0"
  then show "snd (tls_connect_cbs env ctx rcb wcb arg sn) = snd (tls_connect_common env ctx sn)"
    by (simp add: tls_connect_cbs_failure)
next
  assume ok: "fst (tls_connect_common env ctx sn) = 0"
  then have run: "tls_connect_common env ctx sn = (0, snd (tls_connect_common env ctx sn))"
    by (simp add: prod_eq_iff)
  have cbs: "snd (tls_connect_cbs env ctx rcb wcb arg sn) =
               tls_set_errorx (snd (tls_connect_common env ctx sn)) ''no callbacks provided''"
    using assms ok by (auto simp: tls_connect_cbs_def split: prod.splits)
  show "error_msg (snd (tls_connect_cbs env ctx rcb wcb arg sn)) = Some ''no callbacks provided''"
    by (simp add: cbs)
  show "conn (snd (tls_connect_cbs env ctx rcb wcb arg sn)) \<noteq> None"
    using tls_connect_common_calls [OF run] by (simp add: cbs)
  show "(state (snd (tls_connect_cbs env ctx rcb wcb arg sn)) AND TLS_CONNECTED) \<noteq> 0"
    by (simp add: cbs tls_connect_common_state ok)
  show "read_cb (snd (tls_connect_cbs env ctx rcb wcb arg sn)) = read_cb ctx"
    by (simp add: cbs tls_connect_common_frame)
  show "write_cb (snd (tls_connect_cbs env ctx rcb wcb arg sn)) = write_cb ctx"
    by (simp add: cbs tls_connect_common_frame)
qed

theorem missing_callback_after_bootstrap_witness:
  "fst (tls_connect_common sample_env sample_session (Some ''example.com'')) = 0 \<and>
   fst (tls_connect_cbs sample_env sample_session None (Some (User_cb 2)) None
          (Some ''example.com'')) = - 1 \<and>
   error_msg (snd (tls_connect_cbs sample_env sample_session None (Some (User_cb 2)) None
          (Some ''example.com''))) = Some ''no callbacks provided'' \<and>
   conn (snd (tls_connect_cbs sample_env sample_session None (Some (User_cb 2)) None
          (Some ''example.com''))) \<noteq> None \<and>
   (state (snd (tls_connect_cbs sample_env sample_session None (Some (User_cb 2)) None
          (Some ''example.com''))) AND TLS_CONNECTED) \<noteq> 0"
proof -
  have ok: "fst (tls_connect_common sample_env sample_session (Some ''example.com'')) = 0"
    by (rule sample_bootstrap_succeeds) simp_all
  from missing_callback_after_bootstrap [where env = sample_env and ctx = sample_session and
      rcb = None and wcb = "Some (User_cb 2)" and arg = None and sn = "Some ''example.com''"] ok
  show ?thesis by simp
qed

section \<open>The connector\<close>

lemma tls_set_error_errorx:
  "tls_set_error env errno ctx m = tls_set_errorx ctx (m @ '': '' @ strerror env errno)"
  by (simp add: tls_set_error_def tls_set_errorx_def)

lemma tls_set_errorx_twice [simp]:
  "tls_set_errorx (tls_set_errorx ctx a) b = tls_set_errorx ctx b"
  by (simp add: tls_set_errorx_def)

lemma connect_loop_fails:
  assumes "\<not> cand_ok env res"
  shows "connect_loop env (res # rest) (s, ctx, w) =
           connect_loop env rest
             (- 1, tls_set_errorx ctx (cand_error env res), w\<lparr>attempts := attempts w @ [res]\<rparr>)"
  using assms
  by (auto simp: cand_ok_def cand_error_def tls_set_error_errorx sys_close_def Let_def
      split: prod.splits)

lemma connect_loop_connects:
  assumes "cand_ok env res"
  shows "connect_loop env (res # rest) (s, ctx, w) =
           (fst (sys_socket env res), ctx,
            w\<lparr>attempts := attempts w @ [res],
              open_fds := fst (sys_socket env res) # open_fds w\<rparr>)"
  using assms
  by (auto simp: cand_ok_def Let_def split: prod.splits)

lemma connect_loop_all_fail:
  assumes "\<forall>res \<in> set res0. \<not> cand_ok env res"
  shows "connect_loop env res0 (s, ctx, w) =
           (if res0 = [] then s else - 1,
            if res0 = [] then ctx else tls_set_errorx ctx (cand_error env (last res0)),
            w\<lparr>attempts := attempts w @ res0\<rparr>)"
  using assms
proof (induction res0 arbitrary: s ctx w)
  case Nil
  then show ?case by simp
next
  case (Cons res rest)
  then have "\<not> cand_ok env res" and "\<forall>r \<in> set rest. \<not> cand_ok env r"
    by simp_all
  then show ?case
    by (simp add: connect_loop_fails Cons.IH del: connect_loop.simps)
qed

lemma connect_loop_split:
  assumes "\<forall>res \<in> set pre. \<not> cand_ok env res" and "cand_ok env res"
  shows "connect_loop env (pre @ res # post) (s, ctx, w) =
           (fst (sys_socket env res),
            if pre = [] then ctx else tls_set_errorx ctx (cand_error env (last pre)),
            w\<lparr>attempts := attempts w @ pre @ [res],
              open_fds := fst (sys_socket env res) # open_fds w\<rparr>)"
  using assms(1)
proof (induction pre arbitrary: s ctx w)
  case Nil
  show ?case
    using assms(2) by (simp add: connect_loop_connects del: connect_loop.simps)
next
  case (Cons x pre)
  then have "\<not> cand_ok env x" and "\<forall>r \<in> set pre. \<not> cand_ok env r"
    by simp_all
  then show ?case
    by (simp add: connect_loop_fails Cons.IH del: connect_loop.simps)
qed

lemma connect_loop_lookups:
  "lookups (snd (snd (connect_loop env res0 (s, ctx, w)))) = lookups w"
  by (induction res0 arbitrary: s ctx w)
     (auto simp: Let_def sys_close_def split: prod.splits)

lemma connect_loop_attempts:
  "attempts (snd (snd (connect_loop env res0 (s, ctx, w)))) =
     attempts w @ takeWhile (\<lambda>res. \<not> cand_ok env res) res0 @
       take 1 (dropWhile (\<lambda>res. \<not> cand_ok env res) res0)"
proof (induction res0 arbitrary: s ctx w)
  case Nil
  then show ?case by simp
next
  case (Cons res rest)
  show ?case
  proof (cases "cand_ok env res")
    case True
    then show ?thesis
      by (simp add: connect_loop_connects del: connect_loop.simps)
  next
    case False
    then show ?thesis
      by (simp add: connect_loop_fails Cons.IH del: connect_loop.simps)
  qed
qed

text \<open>
  C8. The connector takes the candidates in their order. It attempts the candidates
  that fail before the first one that connects, then that one, and none after it; the
  descriptor of that candidate is its result and is open. When every candidate fails
  the result is -1, the descriptors open are those open before, and the session's error
  is that of the last candidate.
\<close>

theorem connector_stops_at_first_success:
  assumes "connect_loop env res0 (- 1, ctx, w) = (s, ctx', w')"
  shows "attempts w' = attempts w @ takeWhile (\<lambda>res. \<not> cand_ok env res) res0 @
                         take 1 (dropWhile (\<lambda>res. \<not> cand_ok env res) res0) \<and>
         (case dropWhile (\<lambda>res. \<not> cand_ok env res) res0 of
            [] \<Rightarrow> s = - 1 \<and> open_fds w' = open_fds w \<and>
                  (res0 \<noteq> [] \<longrightarrow> error_msg ctx' = Some (cand_error env (last res0)))
          | res # rest \<Rightarrow> s = fst (sys_socket env res) \<and> s \<noteq> - 1 \<and>
                  open_fds w' = s # open_fds w)"
proof (cases "dropWhile (\<lambda>res. \<not> cand_ok env res) res0")
  case Nil
  then have all: "\<forall>res \<in> set res0. \<not> cand_ok env res"
    by simp
  then have tw: "takeWhile (\<lambda>res. \<not> cand_ok env res) res0 = res0"
    by simp
  from assms have "s = - 1" and "w' = w\<lparr>attempts := attempts w @ res0\<rparr>"
    and "res0 \<noteq> [] \<Longrightarrow> ctx' = tls_set_errorx ctx (cand_error env (last res0))"
    by (auto simp: connect_loop_all_fail [OF all] split: if_splits)
  then show ?thesis
    unfolding Nil tw by simp
next
  case (Cons res rest)
  define pre where "pre = takeWhile (\<lambda>res. \<not> cand_ok env res) res0"
  have res0: "res0 = pre @ res # rest"
    unfolding pre_def using Cons takeWhile_dropWhile_id [of "\<lambda>res. \<not> cand_ok env res" res0]
    by simp
  have pre: "\<forall>r \<in> set pre. \<not> cand_ok env r"
    unfolding pre_def by (auto dest: set_takeWhileD)
  have ok: "cand_ok env res"
    using Cons hd_dropWhile [of "\<lambda>res. \<not> cand_ok env res" res0] by simp
  from assms have "connect_loop env (pre @ res # rest) (- 1, ctx, w) = (s, ctx', w')"
    by (simp only: res0)
  then have "s = fst (sys_socket env res)"
    and "w' = w\<lparr>attempts := attempts w @ pre @ [res],
                open_fds := fst (sys_socket env res) # open_fds w\<rparr>"
    by (auto simp: connect_loop_split [OF pre ok])
  moreover from ok have "fst (sys_socket env res) \<noteq> - 1"
    by (simp add: cand_ok_def)
  ultimately show ?thesis
    using Cons by (simp add: pre_def)
qed


lemma sample_net_fields [simp]:
  "sys_socket sample_net res = (if ai_addr res = [192, 0, 2, 0] then (- 1, 97) else (3, 0))"
  "sys_connect sample_net s res = (if ai_addr res = [192, 0, 2, 3] then (0, 0) else (- 1, 111))"
  "strerror sample_net e = (if e = 111 then ''Connection refused''
                            else ''Address family not supported by protocol'')"
  by (simp_all add: sample_net_def sample_env_def)

lemma sample_net_cand_ok [simp]:
  "cand_ok sample_net (sample_addr n) = (n = 3)"
  by (simp add: cand_ok_def sample_addr_def)

theorem connector_stops_at_first_success_witness:
  "fst (connect_loop sample_net [sample_addr 0, sample_addr 1, sample_addr 3, sample_addr 4]
          (- 1, sample_session, sample_sys)) = 3 \<and>
   attempts (snd (snd (connect_loop sample_net
          [sample_addr 0, sample_addr 1, sample_addr 3, sample_addr 4]
          (- 1, sample_session, sample_sys)))) = [sample_addr 0, sample_addr 1, sample_addr 3] \<and>
   open_fds (snd (snd (connect_loop sample_net
          [sample_addr 0, sample_addr 1, sample_addr 3, sample_addr 4]
          (- 1, sample_session, sample_sys)))) = [3] \<and>
   fst (connect_loop sample_net [sample_addr 0, sample_addr 1]
          (- 1, sample_session, sample_sys)) = - 1 \<and>
   attempts (snd (snd (connect_loop sample_net [sample_addr 0, sample_addr 1]
          (- 1, sample_session, sample_sys)))) = [sample_addr 0, sample_addr 1] \<and>
   open_fds (snd (snd (connect_loop sample_net [sample_addr 0, sample_addr 1]
          (- 1, sample_session, sample_sys)))) = [] \<and>
   error_msg (fst (snd (connect_loop sample_net [sample_addr 0, sample_addr 1]
          (- 1, sample_session, sample_sys)))) = Some ''connect: Connection refused''"
proof -
  have run: "connect_loop sample_net res0 (- 1, sample_session, sample_sys) =
      (fst (connect_loop sample_net res0 (- 1, sample_session, sample_sys)),
       fst (snd (connect_loop sample_net res0 (- 1, sample_session, sample_sys))),
       snd (snd (connect_loop sample_net res0 (- 1, sample_session, sample_sys))))" for res0
    by simp
  from connector_stops_at_first_success
      [OF run [of "[sample_addr 0, sample_addr 1, sample_addr 3, sample_addr 4]"]]
    connector_stops_at_first_success [OF run [of "[sample_addr 0, sample_addr 1]"]]
  show ?thesis
    by (simp add: sample_sys_def cand_error_def) (simp add: sample_addr_def)
qed


section \<open>The resolver\<close>

lemma resolve_flat:
  "resolve env h p w =
     (if fst (getaddrinfo env h p hints_inet) = 0
      then (Inr (snd (getaddrinfo env h p hints_inet)),
            w\<lparr>lookups := lookups w @ [hints_inet]\<rparr>)
      else if fst (getaddrinfo env h p hints_inet6) = 0
      then (Inr (snd (getaddrinfo env h p hints_inet6)),
            w\<lparr>lookups := lookups w @ [hints_inet, hints_inet6]\<rparr>)
      else if fst (getaddrinfo env h p hints_any) = 0
      then (Inr (snd (getaddrinfo env h p hints_any)),
            w\<lparr>lookups := lookups w @ [hints_inet, hints_inet6, hints_any]\<rparr>)
      else (Inl (fst (getaddrinfo env h p hints_any)),
            w\<lparr>lookups := lookups w @ [hints_inet, hints_inet6, hints_any]\<rparr>))"
  by (simp add: resolve_def lookup_def Let_def hints_inet_def hints_inet6_def hints_any_def
      split: prod.split)

lemma tls_connect_servername_resolved:
  assumes "(flags ctx AND TLS_CLIENT) \<noteq> 0"
    and "connect_servername_port env host port = Inr (h, p)"
    and "resolve env h p w = (Inr res0, w1)"
  shows "lookups (snd (snd (tls_connect_servername env ctx w (Some host) port sn))) = lookups w1 \<and>
         attempts (snd (snd (tls_connect_servername env ctx w (Some host) port sn))) =
           attempts w1 @ takeWhile (\<lambda>res. \<not> cand_ok env res) res0 @
             take 1 (dropWhile (\<lambda>res. \<not> cand_ok env res) res0)"
proof -
  obtain s ctx2 w2 where loop: "connect_loop env res0 (- 1, ctx, w1) = (s, ctx2, w2)"
    by (cases "connect_loop env res0 (- 1, ctx, w1)") auto
  from connect_loop_lookups [of env res0 "- 1" ctx w1] loop
  have lk: "lookups w2 = lookups w1"
    by simp
  from connect_loop_attempts [of env res0 "- 1" ctx w1] loop
  have at: "attempts w2 = attempts w1 @ takeWhile (\<lambda>res. \<not> cand_ok env res) res0 @
             take 1 (dropWhile (\<lambda>res. \<not> cand_ok env res) res0)"
    by simp
  show ?thesis
    using assms loop
    by (simp add: tls_connect_servername_def Let_def lk at sys_close_def split: prod.split)
qed

lemma tls_connect_servername_unresolved:
  assumes "(flags ctx AND TLS_CLIENT) \<noteq> 0"
    and "connect_servername_port env host port = Inr (h, p)"
    and "resolve env h p w = (Inl e, w1)"
  shows "tls_connect_servername env ctx w (Some host) port sn =
           (- 1, tls_set_errorx ctx (gai_strerror env e), w1)"
  using assms by (simp add: tls_connect_servername_def)

text \<open>
  C7. With a host and a port, \<^verbatim>\<open>tls_connect_servername\<close> calls \<^verbatim>\<open>getaddrinfo\<close> first
  for a numeric IPv4 host, then, when that fails, for a numeric IPv6 host, then, when
  that fails too, for any family with \<^verbatim>\<open>AI_ADDRCONFIG\<close>; it makes no call after the
  first that returns 0 and takes its candidates from the list of that call. When the
  three calls fail it returns -1, the error is the text of the code of the third call,
  and nothing else has changed.
\<close>

theorem resolution_order:
  assumes "(flags ctx AND TLS_CLIENT) \<noteq> 0"
    and "connect_servername_port env host port = Inr (h, p)"
  shows "let g = getaddrinfo env h p;
             r = tls_connect_servername env ctx w (Some host) port sn;
             tried = (\<lambda>res0. takeWhile (\<lambda>res. \<not> cand_ok env res) res0 @
                              take 1 (dropWhile (\<lambda>res. \<not> cand_ok env res) res0))
         in
           if fst (g hints_inet) = 0
           then lookups (snd (snd r)) = lookups w @ [hints_inet] \<and>
                attempts (snd (snd r)) = attempts w @ tried (snd (g hints_inet))
           else if fst (g hints_inet6) = 0
           then lookups (snd (snd r)) = lookups w @ [hints_inet, hints_inet6] \<and>
                attempts (snd (snd r)) = attempts w @ tried (snd (g hints_inet6))
           else if fst (g hints_any) = 0
           then lookups (snd (snd r)) = lookups w @ [hints_inet, hints_inet6, hints_any] \<and>
                attempts (snd (snd r)) = attempts w @ tried (snd (g hints_any))
           else r = (- 1, tls_set_errorx ctx (gai_strerror env (fst (g hints_any))),
                     w\<lparr>lookups := lookups w @ [hints_inet, hints_inet6, hints_any]\<rparr>)"
proof -
  consider
      (v4) "fst (getaddrinfo env h p hints_inet) = 0"
    | (v6) "fst (getaddrinfo env h p hints_inet) \<noteq> 0" "fst (getaddrinfo env h p hints_inet6) = 0"
    | (any) "fst (getaddrinfo env h p hints_inet) \<noteq> 0" "fst (getaddrinfo env h p hints_inet6) \<noteq> 0"
        "fst (getaddrinfo env h p hints_any) = 0"
    | (none) "fst (getaddrinfo env h p hints_inet) \<noteq> 0" "fst (getaddrinfo env h p hints_inet6) \<noteq> 0"
        "fst (getaddrinfo env h p hints_any) \<noteq> 0"
    by blast
  then show ?thesis
  proof cases
    case v4
    then have "resolve env h p w = (Inr (snd (getaddrinfo env h p hints_inet)),
        w\<lparr>lookups := lookups w @ [hints_inet]\<rparr>)"
      by (simp add: resolve_flat)
    from tls_connect_servername_resolved [OF assms this, of sn] v4
    show ?thesis by (simp add: Let_def)
  next
    case v6
    then have "resolve env h p w = (Inr (snd (getaddrinfo env h p hints_inet6)),
        w\<lparr>lookups := lookups w @ [hints_inet, hints_inet6]\<rparr>)"
      by (simp add: resolve_flat)
    from tls_connect_servername_resolved [OF assms this, of sn] v6
    show ?thesis by (simp add: Let_def)
  next
    case any
    then have "resolve env h p w = (Inr (snd (getaddrinfo env h p hints_any)),
        w\<lparr>lookups := lookups w @ [hints_inet, hints_inet6, hints_any]\<rparr>)"
      by (simp add: resolve_flat)
    from tls_connect_servername_resolved [OF assms this, of sn] any
    show ?thesis by (simp add: Let_def)
  next
    case none
    then have "resolve env h p w = (Inl (fst (getaddrinfo env h p hints_any)),
        w\<lparr>lookups := lookups w @ [hints_inet, hints_inet6, hints_any]\<rparr>)"
      by (simp add: resolve_flat)
    from tls_connect_servername_unresolved [OF assms this, of sn] none
    show ?thesis by (simp add: Let_def)
  qed
qed

lemma sample_getaddrinfo [simp]:
  "getaddrinfo sample_env = text_getaddrinfo"
  "gai_strerror sample_env e = (if e = - 3 then ''Temporary failure in name resolution''
                                else ''Name or service not known'')"
  by (simp_all add: sample_env_def)

lemma text_getaddrinfo_examples [simp]:
  "fst (text_getaddrinfo ''example.com'' p hints_inet) = - 2"
  "fst (text_getaddrinfo ''example.com'' p hints_inet6) = - 2"
  "fst (text_getaddrinfo ''example.com'' p hints_any) = - 3"
  "fst (text_getaddrinfo ''192.0.2.1'' p hints_inet) = 0"
  by (simp_all add: text_getaddrinfo_def hints_inet_def hints_inet6_def hints_any_def
      dotted_quad_def colon_hex_def hextets_def hextet_def octet_def is_digit_def is_xdigit_def
      dec_value_def)

theorem resolution_order_witness:
  "(flags sample_session AND TLS_CLIENT) \<noteq> 0 \<and>
   connect_servername_port sample_env ''example.com'' (Some ''443'')
     = Inr (''example.com'', Some ''443'') \<and>
   tls_connect_servername sample_env sample_session sample_sys (Some ''example.com'')
       (Some ''443'') None
     = (- 1, tls_set_errorx sample_session ''Temporary failure in name resolution'',
        sample_sys\<lparr>lookups := [hints_inet, hints_inet6, hints_any]\<rparr>) \<and>
   lookups (snd (snd (tls_connect_servername sample_env sample_session sample_sys
       (Some ''192.0.2.1'') (Some ''443'') None))) = [hints_inet]"
proof -
  have port: "connect_servername_port sample_env host (Some ''443'') = Inr (host, Some ''443'')"
    for host
    by (simp add: connect_servername_port_def)
  have cl: "(flags sample_session AND TLS_CLIENT) \<noteq> 0"
    by simp
  from resolution_order [OF cl port, of "''example.com''" sample_sys None]
    resolution_order [OF cl port, of "''192.0.2.1''" sample_sys None] port cl
  show ?thesis
    by (simp add: Let_def sample_sys_def)
qed


text \<open>
  The connector inside \<^verbatim>\<open>tls_connect_servername\<close>: when the resolver returned
  candidates and each of them fails, the function returns -1 with the error of the
  last candidate, and every descriptor it opened is closed again.
\<close>

lemma tls_connect_servername_all_fail:
  assumes "(flags ctx AND TLS_CLIENT) \<noteq> 0"
    and "connect_servername_port env host port = Inr (h, p)"
    and "resolve env h p w = (Inr res0, w1)"
    and "\<forall>res \<in> set res0. \<not> cand_ok env res" and "res0 \<noteq> []"
  shows "tls_connect_servername env ctx w (Some host) port sn =
           (- 1, tls_set_errorx ctx (cand_error env (last res0)),
            w1\<lparr>attempts := attempts w1 @ res0\<rparr>)"
  using assms(1-3,5)
  by (simp add: tls_connect_servername_def connect_loop_all_fail [OF assms(4)])


end
